theory Spec2Isabelle
  imports Main
begin

section \<open>Data model of the operation scheduler\<close>

text \<open>
  Wall-clock instants (Go \<open>time.Time\<close>) and durations are integers counting nanoseconds.
  The zero \<open>time.Time\<close> is the instant 0, \<open>Add\<close> is addition on unbounded integers
  and \<open>Before\<close> is the strict order.
\<close>

type_synonym time = int
type_synonym duration = int

definition IsZero :: "time \<Rightarrow> bool" where
  "IsZero t = (t = 0)"

definition Add :: "time \<Rightarrow> duration \<Rightarrow> time" where
  "Add t d = t + d"

definition Before :: "time \<Rightarrow> time \<Rightarrow> bool" where
  "Before t u = (t < u)"

text \<open>
  \<open>types.OperationCategory\<close> and \<open>types.OperationState\<close> are string types in Go with
  three named constants each; every other string is a value of the type too.
\<close>

datatype OperationCategory = CREATE | UPDATE | DELETE | OtherCategory string

datatype OperationState = IN_PROGRESS | SUCCEEDED | FAILED | OtherState string

text \<open>
  Errors. \<open>fmt.Errorf\<close> and \<open>fmt.Sprintf\<close> results are kept as the format string with its
  arguments, so that no text of an absent \<open>Error()\<close> method has to be invented.
  \<open>HTTPError\<close> is \<open>util.HTTPError\<close> with its ErrorType, Description (format and
  arguments) and StatusCode.
\<close>

datatype error =
    ErrNotFoundInStorage
  | ErrAlreadyExistsInStorage
  | OpaqueError string
  | HTTPError string string "fmtarg list" nat
  | Errorf string "fmtarg list"
and fmtarg =
    ArgString string
  | ArgError error
  | ArgCategory OperationCategory
  | ArgState OperationState

record RelatedType =
  rt_ID :: string
  rt_Type :: string
  rt_OperationType :: OperationCategory

record operation =
  ID :: string
  CreatedAt :: time
  UpdatedAt :: time
  Type :: OperationCategory
  State :: OperationState
  ResourceID :: string
  ResourceType :: string
  Reschedule :: bool
  DeletionScheduled :: time
  Errors :: string
  TransitiveResources :: "RelatedType list"
  CorrelationID :: string

text \<open>A stored resource (\<open>types.Object\<close>): its type, its id and the Ready flag.\<close>

record Object =
  GetType :: string
  GetID :: string
  Ready :: bool

definition SetReady :: "bool \<Rightarrow> Object \<Rightarrow> Object" where
  "SetReady b obj = obj\<lparr>Ready := b\<rparr>"

text \<open>
  The configuration held by the \<open>Scheduler\<close> struct. \<open>poolSize\<close> is the capacity of the
  \<open>workers\<close> channel.
\<close>

record Scheduler =
  actionTimeout :: duration
  reconciliationOperationTimeout :: duration
  reschedulingDelay :: duration
  poolSize :: nat

text \<open>
  Functions of packages that are not part of the sources at hand, taken as parameters:
  \<open>Operation.Validate\<close>, \<open>opcontext.Set\<close>, \<open>util.ToHTTPError\<close>, \<open>json.Marshal\<close>,
  \<open>util.HandleStorageError\<close> and the name of the object type \<open>types.OperationType\<close>.
\<close>

record externals =
  Validate :: "operation \<Rightarrow> error option"
  opcontext_Set :: "operation \<Rightarrow> error option"
  ToHTTPError :: "error \<Rightarrow> error"
  json_Marshal :: "error \<Rightarrow> error + string"
  HandleStorageError :: "error \<Rightarrow> string \<Rightarrow> error"
  OperationType :: string

section \<open>The concurrency gate\<close>

definition ConcurrentOperationInProgress :: "string \<Rightarrow> error" where
  "ConcurrentOperationInProgress description =
     HTTPError ''ConcurrentOperationInProgress'' description [] 422"

definition another_in_progress :: string where
  "another_in_progress = ''Another concurrent operation in progress for this resource''"

definition deletion_in_progress :: string where
  "deletion_in_progress = ''Deletion is currently in progress for this resource''"

definition unknown_type :: "OperationCategory \<Rightarrow> error" where
  "unknown_type t = Errorf ''operation type %s is unknown type'' [ArgCategory t]"

text \<open>
  \<open>checkForConcurrentOperations\<close>; the argument \<open>now\<close> is the value of \<open>time.Now()\<close>.
  The result is the returned error, \<open>None\<close> for nil.
\<close>

definition checkForConcurrentOperations ::
  "Scheduler \<Rightarrow> time \<Rightarrow> operation \<Rightarrow> operation \<Rightarrow> error option" where
  "checkForConcurrentOperations s now operation lastOperation =
    (let isDeletionScheduled = \<not> IsZero (DeletionScheduled lastOperation);
         isLastOpInProgress = (State lastOperation = IN_PROGRESS \<and>
            Before now (Add (UpdatedAt lastOperation) (actionTimeout s)));
         isAReschedule = (Reschedule lastOperation \<and> Reschedule operation)
     in case Type lastOperation of
          CREATE \<Rightarrow>
            (case Type operation of
               CREATE \<Rightarrow>
                 if isLastOpInProgress \<and> \<not> isDeletionScheduled \<and> \<not> isAReschedule
                 then Some (ConcurrentOperationInProgress another_in_progress) else None
             | UPDATE \<Rightarrow>
                 if isLastOpInProgress
                 then Some (ConcurrentOperationInProgress another_in_progress) else None
             | DELETE \<Rightarrow> None
             | OtherCategory x \<Rightarrow> Some (unknown_type (Type operation)))
        | UPDATE \<Rightarrow>
            (case Type operation of
               CREATE \<Rightarrow>
                 if isLastOpInProgress
                 then Some (ConcurrentOperationInProgress another_in_progress) else None
             | UPDATE \<Rightarrow>
                 if isLastOpInProgress \<and> \<not> isDeletionScheduled \<and> \<not> isAReschedule
                 then Some (ConcurrentOperationInProgress another_in_progress) else None
             | DELETE \<Rightarrow> None
             | OtherCategory x \<Rightarrow> Some (unknown_type (Type operation)))
        | DELETE \<Rightarrow>
            (case Type operation of
               CREATE \<Rightarrow>
                 if isLastOpInProgress \<or> isDeletionScheduled
                 then Some (ConcurrentOperationInProgress deletion_in_progress) else None
             | UPDATE \<Rightarrow>
                 if isLastOpInProgress \<or> isDeletionScheduled
                 then Some (ConcurrentOperationInProgress deletion_in_progress) else None
             | DELETE \<Rightarrow>
                 if isLastOpInProgress \<and> \<not> isDeletionScheduled \<and> \<not> isAReschedule
                 then Some (ConcurrentOperationInProgress deletion_in_progress) else None
             | OtherCategory x \<Rightarrow> Some (unknown_type (Type operation)))
        | OtherCategory x \<Rightarrow> Some (unknown_type (Type lastOperation)))"

text \<open>
  The decision table as the specification words it: the three booleans, and for each pair
  of known types the condition under which the new operation is rejected.
\<close>

definition isLastInProgress :: "Scheduler \<Rightarrow> time \<Rightarrow> operation \<Rightarrow> bool" where
  "isLastInProgress s now lastOp =
     (State lastOp = IN_PROGRESS \<and> now < UpdatedAt lastOp + actionTimeout s)"

definition isDeletionScheduled :: "operation \<Rightarrow> bool" where
  "isDeletionScheduled lastOp = (DeletionScheduled lastOp \<noteq> 0)"

definition isReschedule :: "operation \<Rightarrow> operation \<Rightarrow> bool" where
  "isReschedule lastOp newOp = (Reschedule lastOp \<and> Reschedule newOp)"

fun table_rejects ::
  "OperationCategory \<Rightarrow> OperationCategory \<Rightarrow> bool \<Rightarrow> bool \<Rightarrow> bool \<Rightarrow> bool" where
  "table_rejects CREATE CREATE inProgress deletion reschedule =
     (inProgress \<and> \<not> deletion \<and> \<not> reschedule)"
| "table_rejects CREATE UPDATE inProgress deletion reschedule = inProgress"
| "table_rejects CREATE DELETE inProgress deletion reschedule = False"
| "table_rejects UPDATE CREATE inProgress deletion reschedule = inProgress"
| "table_rejects UPDATE UPDATE inProgress deletion reschedule =
     (inProgress \<and> \<not> deletion \<and> \<not> reschedule)"
| "table_rejects UPDATE DELETE inProgress deletion reschedule = False"
| "table_rejects DELETE CREATE inProgress deletion reschedule = (inProgress \<or> deletion)"
| "table_rejects DELETE UPDATE inProgress deletion reschedule = (inProgress \<or> deletion)"
| "table_rejects DELETE DELETE inProgress deletion reschedule =
     (inProgress \<and> \<not> deletion \<and> \<not> reschedule)"
| "table_rejects lastType newType inProgress deletion reschedule = False"

definition known_type :: "OperationCategory \<Rightarrow> bool" where
  "known_type t = (t = CREATE \<or> t = UPDATE \<or> t = DELETE)"

section \<open>The repository\<close>

text \<open>
  The state behind \<open>storage.TransactionalRepository\<close>. \<open>operations\<close> lists the stored
  operations by descending \<open>paging_sequence\<close> (the newest first); \<open>resources\<close> lists
  the stored objects of the other object types. \<open>faults\<close> is the environment's schedule
  of storage failures other than not-found: each repository call takes the head of the
  list and fails with that message when there is one. \<open>clock\<close> is the wall clock read
  by \<open>time.Now()\<close>.
\<close>

record store =
  operations :: "operation list"
  resources :: "Object list"
  faults :: "string option list"
  clock :: time

datatype 'a result = Return 'a | Panic string

definition take_fault :: "store \<Rightarrow> error option \<times> store" where
  "take_fault st =
     (case faults st of
        [] \<Rightarrow> (None, st)
      | f # fs \<Rightarrow> (map_option OpaqueError f, st\<lparr>faults := fs\<rparr>))"

text \<open>
  Modelled from the spec: the methods of \<open>storage.Repository\<close>, an interface whose
  implementation is not among the sources. \<open>Get\<close> returns the first object that matches
  the criteria in the requested order, or the not-found sentinel; \<open>Create\<close> appends with
  the greatest \<open>paging_sequence\<close>; \<open>Update\<close> replaces the stored object of the same id
  and bumps \<open>updated_at\<close>; \<open>Delete\<close> removes; any call may fail with a storage error.
\<close>

definition Get_operation :: "store \<Rightarrow> (operation \<Rightarrow> bool) \<Rightarrow> (error + operation) \<times> store" where
  "Get_operation st criteria =
     (case take_fault st of
        (Some e, st') \<Rightarrow> (Inl e, st')
      | (None, st') \<Rightarrow>
          (case find criteria (operations st') of
             None \<Rightarrow> (Inl ErrNotFoundInStorage, st')
           | Some opr \<Rightarrow> (Inr opr, st')))"

definition Create_operation :: "store \<Rightarrow> operation \<Rightarrow> error option \<times> store" where
  "Create_operation st opr =
     (case take_fault st of
        (Some e, st') \<Rightarrow> (Some e, st')
      | (None, st') \<Rightarrow>
          (case find (\<lambda>p. ID p = ID opr) (operations st') of
             Some p \<Rightarrow> (Some ErrAlreadyExistsInStorage, st')
           | None \<Rightarrow> (None, st'\<lparr>operations := opr # operations st'\<rparr>)))"

definition Update_operation :: "store \<Rightarrow> operation \<Rightarrow> error option \<times> store" where
  "Update_operation st opr =
     (case take_fault st of
        (Some e, st') \<Rightarrow> (Some e, st')
      | (None, st') \<Rightarrow>
          (case find (\<lambda>p. ID p = ID opr) (operations st') of
             None \<Rightarrow> (Some ErrNotFoundInStorage, st')
           | Some p \<Rightarrow>
               (None, st'\<lparr>operations :=
                  map (\<lambda>p. if ID p = ID opr then opr\<lparr>UpdatedAt := clock st'\<rparr> else p)
                    (operations st')\<rparr>)))"

definition is_object :: "string \<Rightarrow> string \<Rightarrow> Object \<Rightarrow> bool" where
  "is_object objectType objectID obj = (GetType obj = objectType \<and> GetID obj = objectID)"

definition Get_object :: "store \<Rightarrow> string \<Rightarrow> string \<Rightarrow> (error + Object) \<times> store" where
  "Get_object st objectType objectID =
     (case take_fault st of
        (Some e, st') \<Rightarrow> (Inl e, st')
      | (None, st') \<Rightarrow>
          (case find (is_object objectType objectID) (resources st') of
             None \<Rightarrow> (Inl ErrNotFoundInStorage, st')
           | Some obj \<Rightarrow> (Inr obj, st')))"

definition Update_object :: "store \<Rightarrow> Object \<Rightarrow> (error + Object) \<times> store" where
  "Update_object st obj =
     (case take_fault st of
        (Some e, st') \<Rightarrow> (Inl e, st')
      | (None, st') \<Rightarrow>
          (case find (is_object (GetType obj) (GetID obj)) (resources st') of
             None \<Rightarrow> (Inl ErrNotFoundInStorage, st')
           | Some old \<Rightarrow>
               (Inr obj, st'\<lparr>resources :=
                  map (\<lambda>p. if is_object (GetType obj) (GetID obj) p then obj else p)
                    (resources st')\<rparr>)))"

definition Delete_object :: "store \<Rightarrow> string \<Rightarrow> string \<Rightarrow> error option \<times> store" where
  "Delete_object st objectType objectID =
     (case take_fault st of
        (Some e, st') \<Rightarrow> (Some e, st')
      | (None, st') \<Rightarrow>
          (case find (is_object objectType objectID) (resources st') of
             None \<Rightarrow> (Some ErrNotFoundInStorage, st')
           | Some old \<Rightarrow>
               (None, st'\<lparr>resources :=
                  filter (\<lambda>p. \<not> is_object objectType objectID p) (resources st')\<rparr>)))"

text \<open>
  Modelled from the spec: \<open>InTransaction\<close> of the absent repository. The function runs
  against the store; when it returns nil the writes are committed (the commit is one
  more storage call that may fail), otherwise, and when it panics, every write is rolled
  back. The first component carries the variables of the enclosing Go function that the
  closure assigns; they keep their new values after a rollback.
\<close>

definition rollback :: "store \<Rightarrow> store \<Rightarrow> store" where
  "rollback before st = st\<lparr>operations := operations before, resources := resources before\<rparr>"

definition InTransaction ::
  "store \<Rightarrow> (store \<Rightarrow> 'a \<times> error option result \<times> store) \<Rightarrow> 'a \<times> error option result \<times> store" where
  "InTransaction st f =
     (case f st of
        (a, Return None, st') \<Rightarrow>
          (case take_fault st' of
             (None, st'') \<Rightarrow> (a, Return None, st'')
           | (Some e, st'') \<Rightarrow> (a, Return (Some e), rollback st st''))
      | (a, r, st') \<Rightarrow> (a, r, rollback st st'))"

text \<open>Go's \<open>if err != nil { return err }\<close> between two steps over the store.\<close>

definition andThen ::
  "error option result \<times> store \<Rightarrow> (store \<Rightarrow> error option result \<times> store) \<Rightarrow>
   error option result \<times> store" where
  "andThen r f = (case r of (Return None, st) \<Rightarrow> f st | _ \<Rightarrow> r)"

definition nil_dereference :: string where
  "nil_dereference = ''runtime error: invalid memory address or nil pointer dereference''"

section \<open>Storing an admitted operation\<close>

definition getResourceLastOperation ::
  "externals \<Rightarrow> store \<Rightarrow> operation \<Rightarrow> (error + operation option) \<times> store" where
  "getResourceLastOperation x st operation =
     (case Get_operation st (\<lambda>p. ResourceID p = ResourceID operation) of
        (Inl err, st') \<Rightarrow>
          if err = ErrNotFoundInStorage then (Inr None, st')
          else (Inl (HandleStorageError x err (OperationType x)), st')
      | (Inr lastOperation, st') \<Rightarrow> (Inr (Some lastOperation), st'))"

definition already_executed :: error where
  "already_executed = Errorf ''operation with this id was already executed'' []"

definition storeOrUpdateOperation ::
  "externals \<Rightarrow> store \<Rightarrow> operation \<Rightarrow> operation option \<Rightarrow> error option \<times> store" where
  "storeOrUpdateOperation x st operation lastOperation =
     (if (case lastOperation of None \<Rightarrow> True | Some lastOp \<Rightarrow> ID operation \<noteq> ID lastOp) then
        (case Create_operation st operation of
           (Some err, st') \<Rightarrow> (Some (HandleStorageError x err (OperationType x)), st')
         | (None, st') \<Rightarrow> (None, st'))
      else if Reschedule operation \<or> \<not> IsZero (DeletionScheduled operation) then
        (case Update_operation st operation of
           (Some err, st') \<Rightarrow> (Some (HandleStorageError x err (OperationType x)), st')
         | (None, st') \<Rightarrow> (None, st'))
      else (Some already_executed, st))"

definition executeOperationPreconditions ::
  "externals \<Rightarrow> Scheduler \<Rightarrow> store \<Rightarrow> operation \<Rightarrow> error option \<times> store" where
  "executeOperationPreconditions x s st operation =
     (if State operation = SUCCEEDED then
        (Some (Errorf ''scheduling for operations of type %s is not allowed''
                 [ArgState SUCCEEDED]), st)
      else case Validate x operation of
        Some err \<Rightarrow> (Some (Errorf ''scheduled operation is not valid: %s'' [ArgError err]), st)
      | None \<Rightarrow>
          (case getResourceLastOperation x st operation of
             (Inl err, st') \<Rightarrow> (Some err, st')
           | (Inr lastOperation, st') \<Rightarrow>
               (case (case lastOperation of
                        None \<Rightarrow> None
                      | Some lastOp \<Rightarrow>
                          checkForConcurrentOperations s (clock st') operation lastOp) of
                  Some err \<Rightarrow> (Some err, st')
                | None \<Rightarrow> storeOrUpdateOperation x st' operation lastOperation)))"

section \<open>The post-action reconciler\<close>

text \<open>
  \<open>updateOperationState\<close> assigns to the operation it is given; the assigned operation
  is the first component of the result, the returned error the second.
\<close>

definition updateOperationState ::
  "externals \<Rightarrow> store \<Rightarrow> operation \<Rightarrow> OperationState \<Rightarrow> error option \<Rightarrow>
   operation \<times> error option \<times> store" where
  "updateOperationState x st operation state opErr =
     (let operation1 = operation\<lparr>State := state\<rparr> in
      case (case opErr of
              None \<Rightarrow> Inr operation1
            | Some e \<Rightarrow>
                (case json_Marshal x (ToHTTPError x e) of
                   Inl err \<Rightarrow> Inl err
                 | Inr bytes \<Rightarrow>
                     Inr (if length (Errors operation1) = 0
                          then operation1\<lparr>Errors := bytes\<rparr> else operation1))) of
        Inl err \<Rightarrow> (operation1, Some err, st)
      | Inr operation2 \<Rightarrow>
          (case Update_operation st operation2 of
             (Some err, st') \<Rightarrow>
               (operation2,
                Some (Errorf ''failed to update state of operation with id %s to %s: %s''
                        [ArgString (ID operation2), ArgState state, ArgError err]), st')
           | (None, st') \<Rightarrow> (operation2, None, st')))"

text \<open>
  \<open>updateResource\<close> calls \<open>updateFunc\<close> on the object it is given before anything else;
  on a nil object the call of \<open>SetReady\<close> inside \<open>updateFunc\<close> panics.
\<close>

definition updateResource ::
  "store \<Rightarrow> Object option \<Rightarrow> (Object \<Rightarrow> Object) \<Rightarrow> (error + Object) result \<times> store" where
  "updateResource st objectAfterAction updateFunc =
     (case objectAfterAction of
        None \<Rightarrow> (Panic nil_dereference, st)
      | Some obj \<Rightarrow>
          (case Update_object st (updateFunc obj) of
             (Inl err, st') \<Rightarrow>
               (Return (Inl (Errorf ''failed to update object with type %s and id %s''
                               [ArgString (GetType (updateFunc obj)),
                                ArgString (GetID (updateFunc obj))])), st')
           | (Inr updatedObject, st') \<Rightarrow> (Return (Inr updatedObject), st')))"

definition fetchAndUpdateResource ::
  "store \<Rightarrow> string \<Rightarrow> string \<Rightarrow> (Object \<Rightarrow> Object) \<Rightarrow> error option result \<times> store" where
  "fetchAndUpdateResource st objectID objectType updateFunc =
     (case Get_object st objectType objectID of
        (Inl err, st') \<Rightarrow>
          if err = ErrNotFoundInStorage then (Return None, st')
          else (Return (Some (Errorf ''failed to retrieve object of type %s with id %s:%s''
                                [ArgString objectType, ArgString objectID, ArgError err])), st')
      | (Inr objectFromDB, st') \<Rightarrow>
          (case updateResource st' (Some objectFromDB) updateFunc of
             (Panic p, st'') \<Rightarrow> (Panic p, st'')
           | (Return (Inl err), st'') \<Rightarrow> (Return (Some err), st'')
           | (Return (Inr updated), st'') \<Rightarrow> (Return None, st'')))"

fun updateTransitiveResources ::
  "store \<Rightarrow> RelatedType list \<Rightarrow> (Object \<Rightarrow> Object) \<Rightarrow> error option result \<times> store" where
  "updateTransitiveResources st [] updateFunc = (Return None, st)"
| "updateTransitiveResources st (trR # rest) updateFunc =
     (if rt_OperationType trR = CREATE then
        andThen (fetchAndUpdateResource st (rt_ID trR) (rt_Type trR) updateFunc)
          (\<lambda>st'. updateTransitiveResources st' rest updateFunc)
      else updateTransitiveResources st rest updateFunc)"

text \<open>
  \<open>refetchOperation\<close> and \<open>addOperationToContext\<close> mark the operation they were given
  as FAILED when they fail. No caller reads that in-memory copy afterwards, so only the
  store and the error are returned.
\<close>

definition refetchOperation ::
  "externals \<Rightarrow> store \<Rightarrow> operation \<Rightarrow> (error + operation) \<times> store" where
  "refetchOperation x st operation =
     (case Get_operation st (\<lambda>p. ID p = ID operation) of
        (Inl getErr, st') \<Rightarrow>
          (let opErr = Errorf
                 ''failed to re-fetch currently executing operation with id %s from db: %s''
                 [ArgString (ID operation), ArgError getErr]
           in case updateOperationState x st' operation FAILED (Some opErr) of
                (operation', Some err, st'') \<Rightarrow>
                  (Inl (Errorf ''setting new operation state due to err %s failed: %s''
                          [ArgError opErr, ArgError err]), st'')
              | (operation', None, st'') \<Rightarrow> (Inl opErr, st''))
      | (Inr opObject, st') \<Rightarrow> (Inr opObject, st'))"

definition addOperationToContext ::
  "externals \<Rightarrow> store \<Rightarrow> operation \<Rightarrow> error option \<times> store" where
  "addOperationToContext x st operation =
     (case opcontext_Set x operation of
        Some ctxErr \<Rightarrow>
          (let setCtxErr =
                 Errorf ''failed to set operation in job context: %s'' [ArgError ctxErr]
           in case updateOperationState x st operation FAILED (Some setCtxErr) of
                (operation', Some err, st') \<Rightarrow>
                  (Some (Errorf ''setting new operation state due to err %s failed: %s''
                           [ArgError setCtxErr, ArgError err]), st')
              | (operation', None, st') \<Rightarrow> (Some setCtxErr, st'))
      | None \<Rightarrow> (None, st))"

text \<open>
  The function \<open>handleActionResponseSuccess\<close> passes to \<open>InTransaction\<close>. The closure
  assigns \<open>opAfterJob\<close> and \<open>actionObject\<close>; both are returned.
\<close>

definition success_transaction ::
  "externals \<Rightarrow> Object option \<Rightarrow> operation \<Rightarrow> store \<Rightarrow>
   (operation \<times> Object option) \<times> error option result \<times> store" where
  "success_transaction x actionObject opAfterJob st =
     (let (finalState, op1) =
            (if Type opAfterJob \<noteq> DELETE \<and> \<not> IsZero (DeletionScheduled opAfterJob)
             then (FAILED, opAfterJob)
             else (SUCCEEDED, opAfterJob\<lparr>Errors := []\<rparr>));
          op2 = op1\<lparr>DeletionScheduled := 0\<rparr>
      in if Type op2 = CREATE \<and> finalState = SUCCEEDED then
           (case updateResource st actionObject (SetReady True) of
              (Panic p, st1) \<Rightarrow> ((op2, actionObject), Panic p, st1)
            | (Return (Inl err), st1) \<Rightarrow> ((op2, None), Return (Some err), st1)
            | (Return (Inr updated), st1) \<Rightarrow>
                (case updateTransitiveResources st1 (TransitiveResources op2) (SetReady True) of
                   (Return None, st2) \<Rightarrow>
                     (case updateOperationState x st2 op2 finalState None of
                        (op3, err, st3) \<Rightarrow> ((op3, Some updated), Return err, st3))
                 | (r, st2) \<Rightarrow> ((op2, Some updated), r, st2)))
         else
           (case updateOperationState x st op2 finalState None of
              (op3, err, st3) \<Rightarrow> ((op3, actionObject), Return err, st3)))"

definition handleActionResponseSuccess ::
  "externals \<Rightarrow> store \<Rightarrow> Object option \<Rightarrow> operation \<Rightarrow>
   (Object option \<times> error option) result \<times> store" where
  "handleActionResponseSuccess x st actionObject opAfterJob =
     (case InTransaction st (success_transaction x actionObject opAfterJob) of
        ((op', object), Panic p, st') \<Rightarrow> (Panic p, st')
      | ((op', object), Return (Some err), st') \<Rightarrow>
          (Return (None, Some (Errorf
             ''failed to update resource ready or operation state after a successfully executing operation with id %s: %s''
             [ArgString (ID op'), ArgError err])), st')
      | ((op', object), Return None, st') \<Rightarrow> (Return (object, None), st'))"

text \<open>The function \<open>handleActionResponseFailure\<close> passes to \<open>InTransaction\<close>.\<close>

definition failure_transaction ::
  "externals \<Rightarrow> error \<Rightarrow> operation \<Rightarrow> store \<Rightarrow> operation \<times> error option result \<times> store" where
  "failure_transaction x actionError opAfterJob st =
     (case (if Type opAfterJob = CREATE \<and> State opAfterJob = FAILED then
              andThen
                (fetchAndUpdateResource st (ResourceID opAfterJob) (ResourceType opAfterJob)
                   (SetReady False))
                (\<lambda>st'. updateTransitiveResources st' (TransitiveResources opAfterJob)
                   (SetReady False))
            else (Return None, st)) of
        (Return None, st1) \<Rightarrow>
          (case updateOperationState x st1 opAfterJob FAILED (Some actionError) of
             (op', Some opErr, st2) \<Rightarrow>
               (op', Return (Some (Errorf ''setting new operation state failed: %s''
                                     [ArgError opErr])), st2)
           | (op', None, st2) \<Rightarrow> (op', Return None, st2))
      | (r, st1) \<Rightarrow> (opAfterJob, r, st1))"

section \<open>The worker pool and the scheduler's entry points\<close>

text \<open>
  An action receives the operation it runs under (through the context) and the
  repository. It may assign to the operation, write to the repository, return an object
  and an error, or panic.
\<close>

type_synonym storageAction =
  "operation \<Rightarrow> store \<Rightarrow> (Object option \<times> error option) result \<times> operation \<times> store"

text \<open>
  The state of a scheduler: the repository, the number of tokens in the \<open>workers\<close>
  channel, the counter of the wait-group, the goroutines started and not yet run (each
  with the operation and the action it was started with), and whether the lifecycle
  context \<open>smCtx\<close> is cancelled before a rescheduling delay elapses.
\<close>

record world =
  repository :: store
  workers :: nat
  wg :: int
  goroutines :: "(operation \<times> storageAction) list"
  smCtxDone :: bool

definition ServiceUnavailable :: error where
  "ServiceUnavailable =
     HTTPError ''ServiceUnavailable''
       ''Failed to schedule job. Server is busy - try again in a few minutes.'' [] 503"

text \<open>
  \<open>ScheduleAsyncStorageAction\<close>: the non-blocking send on \<open>workers\<close> succeeds when the
  channel holds fewer than \<open>poolSize\<close> tokens. The goroutine it starts is recorded in
  \<open>goroutines\<close>; \<open>worker\<close> below is what the goroutine runs.
\<close>

definition ScheduleAsyncStorageAction ::
  "externals \<Rightarrow> Scheduler \<Rightarrow> world \<Rightarrow> operation \<Rightarrow> storageAction \<Rightarrow> error option \<times> world" where
  "ScheduleAsyncStorageAction x s w operation action =
     (if workers w < poolSize s then
        (let w1 = w\<lparr>workers := workers w + 1\<rparr> in
         case executeOperationPreconditions x s (repository w1) operation of
           (Some err, st) \<Rightarrow> (Some err, w1\<lparr>repository := st, workers := workers w1 - 1\<rparr>)
         | (None, st) \<Rightarrow>
             (None, w1\<lparr>repository := st, wg := wg w1 + 1,
                       goroutines := goroutines w1 @ [(operation, action)]\<rparr>))
      else (Some ServiceUnavailable, w))"

definition deletionAction :: "externals \<Rightarrow> operation \<Rightarrow> storageAction" where
  "deletionAction x opAfterJob = (\<lambda>operation st.
     case Delete_object st (ResourceType opAfterJob) (ResourceID opAfterJob) of
       (Some err, st') \<Rightarrow>
         if err = ErrNotFoundInStorage then (Return (None, None), operation, st')
         else (Return (None, Some (HandleStorageError x err (ResourceType opAfterJob))),
               operation, st')
     | (None, st') \<Rightarrow> (Return (None, None), operation, st'))"

definition isDeleteRescheduleRequired :: "Scheduler \<Rightarrow> time \<Rightarrow> operation \<Rightarrow> bool" where
  "isDeleteRescheduleRequired s now opAfterJob =
     (\<not> IsZero (DeletionScheduled opAfterJob) \<and>
      Before now (Add (DeletionScheduled opAfterJob) (reconciliationOperationTimeout s)) \<and>
      State opAfterJob \<noteq> SUCCEEDED)"

definition BrokerError :: "error \<Rightarrow> error \<Rightarrow> error" where
  "BrokerError actionError orphanMitigationErr =
     HTTPError ''BrokerError'' ''job failed with %s and orphan mitigation failed with %s''
       [ArgError actionError, ArgError orphanMitigationErr] 502"

definition sm_context_canceled :: error where
  "sm_context_canceled =
     Errorf ''sm context canceled: %s'' [ArgError (OpaqueError ''context canceled'')]"

text \<open>
  \<open>handleActionResponseFailure\<close>. Waiting for \<open>reschedulingDelay\<close> moves the clock; the
  \<open>select\<close> takes the branch of \<open>smCtx.Done()\<close> when \<open>smCtxDone\<close> holds.
\<close>

definition handleActionResponseFailure ::
  "externals \<Rightarrow> Scheduler \<Rightarrow> world \<Rightarrow> error \<Rightarrow> operation \<Rightarrow> error option result \<times> world" where
  "handleActionResponseFailure x s w actionError opAfterJob =
     (case InTransaction (repository w) (failure_transaction x actionError opAfterJob) of
        (op', Panic p, st) \<Rightarrow> (Panic p, w\<lparr>repository := st\<rparr>)
      | (op', Return (Some err), st) \<Rightarrow> (Return (Some err), w\<lparr>repository := st\<rparr>)
      | (op', Return None, st) \<Rightarrow>
          if isDeleteRescheduleRequired s (clock st) op' then
            if smCtxDone w then (Return (Some sm_context_canceled), w\<lparr>repository := st\<rparr>)
            else
              (case ScheduleAsyncStorageAction x s
                      (w\<lparr>repository := st\<lparr>clock := Add (clock st) (max 0 (reschedulingDelay s))\<rparr>\<rparr>)
                      op' (deletionAction x op') of
                 (Some orphanMitigationErr, w') \<Rightarrow>
                   (Return (Some (BrokerError actionError orphanMitigationErr)), w')
               | (None, w') \<Rightarrow> (Return (Some actionError), w'))
          else (Return (Some actionError), w\<lparr>repository := st\<rparr>))"

definition handleActionResponse ::
  "externals \<Rightarrow> Scheduler \<Rightarrow> world \<Rightarrow> Object option \<Rightarrow> error option \<Rightarrow> operation \<Rightarrow>
   (Object option \<times> error option) result \<times> world" where
  "handleActionResponse x s w actionObject actionError opBeforeJob =
     (case refetchOperation x (repository w) opBeforeJob of
        (Inl err, st) \<Rightarrow> (Return (None, Some err), w\<lparr>repository := st\<rparr>)
      | (Inr refetched, st) \<Rightarrow>
          (let opAfterJob = refetched\<lparr>TransitiveResources := TransitiveResources opBeforeJob\<rparr>
           in case addOperationToContext x st opAfterJob of
                (Some err, st') \<Rightarrow> (Return (None, Some err), w\<lparr>repository := st'\<rparr>)
              | (None, st') \<Rightarrow>
                  (case actionError of
                     Some err \<Rightarrow>
                       (case handleActionResponseFailure x s (w\<lparr>repository := st'\<rparr>) err
                               opAfterJob of
                          (Panic p, w') \<Rightarrow> (Panic p, w')
                        | (Return e, w') \<Rightarrow> (Return (None, e), w'))
                   | None \<Rightarrow>
                       if \<not> Reschedule opAfterJob then
                         (case handleActionResponseSuccess x st' actionObject opAfterJob of
                            (r, st'') \<Rightarrow> (r, w\<lparr>repository := st''\<rparr>))
                       else (Return (actionObject, None), w\<lparr>repository := st'\<rparr>))))"

definition job_interrupted :: error where
  "job_interrupted = HTTPError ''InternalServerError'' ''job interrupted'' [] 500"

text \<open>
  The body of the goroutine, up to its deferred function. The deadline of
  \<open>actionTimeout\<close> and the watcher of \<open>smCtx\<close> only cancel the context handed to the
  action; what the action does with that is part of the action. The operation is
  returned as the action left it, for the deferred function.
\<close>

definition worker_body ::
  "externals \<Rightarrow> Scheduler \<Rightarrow> world \<Rightarrow> operation \<Rightarrow> storageAction \<Rightarrow>
   unit result \<times> operation \<times> world" where
  "worker_body x s w operation action =
     (case addOperationToContext x (repository w) operation of
        (Some err, st) \<Rightarrow> (Return (), operation, w\<lparr>repository := st\<rparr>)
      | (None, st) \<Rightarrow>
          (case action operation st of
             (Panic p, operation', st') \<Rightarrow> (Panic p, operation', w\<lparr>repository := st'\<rparr>)
           | (Return (objectAfterAction, actionErr), operation', st') \<Rightarrow>
               (case handleActionResponse x s (w\<lparr>repository := st'\<rparr>) objectAfterAction actionErr
                       operation' of
                  (Panic p, w') \<Rightarrow> (Panic p, operation', w')
                | (Return r, w') \<Rightarrow> (Return (), operation', w'))))"

text \<open>
  The deferred function of the goroutine. After a panic it re-fetches the operation and
  calls \<open>updateOperationState\<close> on what \<open>refetchOperation\<close> returned; when the re-fetch
  failed that is a nil pointer, and the assignment \<open>operation.State = state\<close> panics
  inside the deferred function, before the token is taken back from \<open>workers\<close> and
  before \<open>wg.Done()\<close>. The result \<open>Panic\<close> is a panic that leaves the goroutine.
\<close>

definition release :: "world \<Rightarrow> world" where
  "release w = w\<lparr>workers := workers w - 1, wg := wg w - 1\<rparr>"

definition worker_deferred ::
  "externals \<Rightarrow> unit result \<times> operation \<times> world \<Rightarrow> unit result \<times> world" where
  "worker_deferred x r =
     (case r of
        (Return u, operation, w) \<Rightarrow> (Return (), release w)
      | (Panic panicErr, operation, w) \<Rightarrow>
          (case refetchOperation x (repository w) operation of
             (Inl opErr, st) \<Rightarrow> (Panic nil_dereference, w\<lparr>repository := st\<rparr>)
           | (Inr opr, st) \<Rightarrow>
               (case updateOperationState x st opr FAILED (Some job_interrupted) of
                  (opr', err, st') \<Rightarrow> (Return (), release (w\<lparr>repository := st'\<rparr>)))))"

definition worker ::
  "externals \<Rightarrow> Scheduler \<Rightarrow> world \<Rightarrow> operation \<Rightarrow> storageAction \<Rightarrow> unit result \<times> world" where
  "worker x s w operation action = worker_deferred x (worker_body x s w operation action)"

definition ScheduleSyncStorageAction ::
  "externals \<Rightarrow> Scheduler \<Rightarrow> world \<Rightarrow> operation \<Rightarrow> storageAction \<Rightarrow>
   (Object option \<times> error option) result \<times> world" where
  "ScheduleSyncStorageAction x s w operation action =
     (case executeOperationPreconditions x s (repository w) operation of
        (Some err, st) \<Rightarrow> (Return (None, Some err), w\<lparr>repository := st\<rparr>)
      | (None, st) \<Rightarrow>
          (case addOperationToContext x st operation of
             (Some err, st1) \<Rightarrow> (Return (None, Some err), w\<lparr>repository := st1\<rparr>)
           | (None, st1) \<Rightarrow>
               (case action operation st1 of
                  (Panic p, operation', st2) \<Rightarrow> (Panic p, w\<lparr>repository := st2\<rparr>)
                | (Return (object, actionErr), operation', st2) \<Rightarrow>
                    (case handleActionResponse x s (w\<lparr>repository := st2\<rparr>) object actionErr
                            operation' of
                       (Panic p, w') \<Rightarrow> (Panic p, w')
                     | (Return (object', Some err), w') \<Rightarrow> (Return (None, Some err), w')
                     | (Return (object', None), w') \<Rightarrow> (Return (object', None), w')))))"

text \<open>What the repository holds under an object type and id, and under an operation id.\<close>

definition stored_object :: "store \<Rightarrow> string \<Rightarrow> string \<Rightarrow> Object option" where
  "stored_object st objectType objectID = find (is_object objectType objectID) (resources st)"

definition stored_operation :: "store \<Rightarrow> string \<Rightarrow> operation option" where
  "stored_operation st operationID = find (\<lambda>p. ID p = operationID) (operations st)"

text \<open>The error payload of the record stored under an operation id.\<close>

definition stored_Errors :: "store \<Rightarrow> string \<Rightarrow> string option" where
  "stored_Errors st operationID = map_option Errors (stored_operation st operationID)"

text \<open>The transitive resources that \<open>updateTransitiveResources\<close> visits.\<close>

definition transitive_CREATE :: "RelatedType list \<Rightarrow> (string \<times> string) set" where
  "transitive_CREATE trs =
     {(rt_Type trR, rt_ID trR) | trR. trR \<in> set trs \<and> rt_OperationType trR = CREATE}"

text \<open>The local variable \<open>finalState\<close> of the success path.\<close>

definition finalState :: "operation \<Rightarrow> OperationState" where
  "finalState opAfterJob =
     (if Type opAfterJob \<noteq> DELETE \<and> \<not> IsZero (DeletionScheduled opAfterJob) then FAILED
      else SUCCEEDED)"

text \<open>The need for orphan mitigation as the specification words it.\<close>

definition isMitigationRequired :: "Scheduler \<Rightarrow> time \<Rightarrow> operation \<Rightarrow> bool" where
  "isMitigationRequired s now opr =
     (DeletionScheduled opr \<noteq> 0 \<and>
      now < DeletionScheduled opr + reconciliationOperationTimeout s \<and>
      State opr \<noteq> SUCCEEDED)"

text \<open>The clock after the wait for \<open>reschedulingDelay\<close>.\<close>

definition after_delay :: "Scheduler \<Rightarrow> world \<Rightarrow> store \<Rightarrow> world" where
  "after_delay s w st =
     w\<lparr>repository := st\<lparr>clock := Add (clock st) (max 0 (reschedulingDelay s))\<rparr>\<rparr>"

section \<open>Concrete schedulers, operations and stores\<close>

text \<open>
  The settings of the specification's scenarios: an action timeout of 60, a
  reconciliation timeout of 600, a rescheduling delay of 1 and one worker.
\<close>

definition sched :: Scheduler where
  "sched = \<lparr>actionTimeout = 60, reconciliationOperationTimeout = 600, reschedulingDelay = 1,
            poolSize = 1\<rparr>"

definition ext :: externals where
  "ext = \<lparr>Validate = (\<lambda>p. None), opcontext_Set = (\<lambda>p. None), ToHTTPError = (\<lambda>e. e),
          json_Marshal = (\<lambda>e. Inr ''{error}''), HandleStorageError = (\<lambda>e t. e),
          OperationType = ''operations''\<rparr>"

definition op_o1 :: operation where
  "op_o1 = \<lparr>ID = ''o1'', CreatedAt = 99, UpdatedAt = 99, Type = CREATE, State = IN_PROGRESS,
            ResourceID = ''r1'', ResourceType = ''binding'', Reschedule = False,
            DeletionScheduled = 0, Errors = [], TransitiveResources = [],
            CorrelationID = []\<rparr>"

definition op_o2 :: operation where
  "op_o2 = op_o1\<lparr>ID := ''o2''\<rparr>"

definition binding_r1 :: Object where
  "binding_r1 = \<lparr>GetType = ''binding'', GetID = ''r1'', Ready = True\<rparr>"

definition store_o1 :: store where
  "store_o1 = \<lparr>operations = [op_o1], resources = [binding_r1],
               faults = [], clock = 100\<rparr>"

definition world_idle :: world where
  "world_idle = \<lparr>repository = store_o1, workers = 0, wg = 0, goroutines = [],
                 smCtxDone = False\<rparr>"

definition world_busy :: world where
  "world_busy = world_idle\<lparr>workers := 1, wg := 1\<rparr>"

definition action_fails :: storageAction where
  "action_fails = (\<lambda>operation st.
     (Return (None, Some (OpaqueError ''broker failed'')), operation, st))"

text \<open>
  An operation whose first run failed with a deletion scheduled at time 50, as the
  failure path leaves it.
\<close>

definition op_mitigated :: operation where
  "op_mitigated = op_o1\<lparr>State := FAILED, DeletionScheduled := 50\<rparr>"

definition store_mitigated :: store where
  "store_mitigated = store_o1\<lparr>operations := [op_mitigated]\<rparr>"

definition op_resched :: operation where
  "op_resched = op_o1\<lparr>Reschedule := True\<rparr>"

definition world_resched :: world where
  "world_resched = world_idle\<lparr>repository := store_o1\<lparr>operations := [op_resched]\<rparr>\<rparr>"

text \<open>
  A CREATE with a transitive resource: the binding \<open>r1\<close> and the instance \<open>i1\<close> it
  is created with, both stored with Ready set.
\<close>

definition instance_i1 :: Object where
  "instance_i1 = \<lparr>GetType = ''instance'', GetID = ''i1'', Ready = True\<rparr>"

definition related_i1 :: RelatedType where
  "related_i1 = \<lparr>rt_ID = ''i1'', rt_Type = ''instance'', rt_OperationType = CREATE\<rparr>"

definition op_transitive :: operation where
  "op_transitive = op_o1\<lparr>TransitiveResources := [related_i1]\<rparr>"

definition store_transitive :: store where
  "store_transitive = \<lparr>operations = [op_transitive], resources = [binding_r1, instance_i1],
      faults = [], clock = 100\<rparr>"

definition broker_failed :: error where
  "broker_failed = OpaqueError ''broker failed''"

text \<open>The same store before the resources became ready.\<close>

definition store_unready :: store where
  "store_unready = store_transitive\<lparr>resources :=
     [binding_r1\<lparr>Ready := False\<rparr>, instance_i1\<lparr>Ready := False\<rparr>]\<rparr>"

text \<open>An action that returns a nil object and a nil error, and one that panics.\<close>

definition action_nil :: storageAction where
  "action_nil = (\<lambda>operation st. (Return (None, None), operation, st))"

definition action_panics :: storageAction where
  "action_panics = (\<lambda>operation st. (Panic ''index out of range'', operation, st))"

text \<open>A store whose next call fails, and a worker running on it with its token taken.\<close>

definition store_lost :: store where
  "store_lost = store_o1\<lparr>faults := [Some ''connection lost'']\<rparr>"

definition world_running :: world where
  "world_running = world_busy\<lparr>repository := store_lost\<rparr>"

text \<open>
  A CREATE in progress with a deletion scheduled at time 50, and the same operation as
  the failure path leaves it after the action failed.
\<close>

definition op_pending :: operation where
  "op_pending = op_o1\<lparr>DeletionScheduled := 50\<rparr>"

definition op_pending_failed :: operation where
  "op_pending_failed = op_pending\<lparr>State := FAILED, Errors := ''{error}''\<rparr>"

definition world_pending :: world where
  "world_pending = world_idle\<lparr>repository := store_o1\<lparr>operations := [op_pending]\<rparr>\<rparr>"

text \<open>
  An operation whose stored record already carries an error payload, an action that
  records an error on the stored operation before it fails, and a store on which the
  re-fetch after that action fails.
\<close>

definition op_first :: operation where
  "op_first = op_o1\<lparr>Errors := ''{first}''\<rparr>"

definition store_first :: store where
  "store_first = store_o1\<lparr>operations := [op_first]\<rparr>"

definition action_records :: storageAction where
  "action_records = (\<lambda>operation st.
     case Update_operation st (operation\<lparr>Errors := ''{first}''\<rparr>) of
       (e, st') \<Rightarrow> (Return (None, Some broker_failed), operation, st'))"

definition store_recording :: store where
  "store_recording =
     store_o1\<lparr>operations := [], faults := [None, None, None, Some ''connection lost'']\<rparr>"

definition refetch_failed :: error where
  "refetch_failed =
     Errorf ''failed to re-fetch currently executing operation with id %s from db: %s''
       [ArgString ''o1'', ArgError (OpaqueError ''connection lost'')]"

text \<open>The definitions that evaluate the scheduler on the concrete states above.\<close>

lemmas eval_defs = updateOperationState_def Update_operation_def take_fault_def
  Get_operation_def Create_operation_def Get_object_def Update_object_def Delete_object_def
  is_object_def InTransaction_def rollback_def andThen_def sched_def ext_def op_o1_def
  op_o2_def store_o1_def binding_r1_def world_idle_def world_busy_def action_fails_def
  op_mitigated_def store_mitigated_def instance_i1_def related_i1_def op_transitive_def
  store_transitive_def broker_failed_def failure_transaction_def success_transaction_def
  fetchAndUpdateResource_def updateResource_def SetReady_def stored_object_def
  stored_operation_def IsZero_def Before_def Add_def store_unready_def action_nil_def
  action_panics_def store_lost_def world_running_def finalState_def
  handleActionResponse_def handleActionResponseFailure_def handleActionResponseSuccess_def
  refetchOperation_def addOperationToContext_def isDeleteRescheduleRequired_def
  ScheduleSyncStorageAction_def ScheduleAsyncStorageAction_def
  executeOperationPreconditions_def getResourceLastOperation_def
  storeOrUpdateOperation_def checkForConcurrentOperations_def worker_def worker_body_def
  worker_deferred_def release_def op_pending_def op_pending_failed_def world_pending_def
  after_delay_def isMitigationRequired_def deletionAction_def BrokerError_def
  ServiceUnavailable_def op_resched_def world_resched_def op_first_def store_first_def
  action_records_def store_recording_def refetch_failed_def stored_Errors_def

section \<open>Properties\<close>

subsection \<open>The concurrency gate follows the decision table\<close>

text \<open>
  C2. For a last and a new operation whose types are both among CREATE, UPDATE and
  DELETE, the gate returns a ConcurrentOperationInProgress error exactly when the
  decision table's condition for the two types holds, and nil otherwise; an unknown type
  of the last operation, or else of the new one, gives the "unknown type" error.
\<close>

theorem gate_matches_table:
  "checkForConcurrentOperations s now newOp lastOp =
     (if \<not> known_type (Type lastOp) then Some (unknown_type (Type lastOp))
      else if \<not> known_type (Type newOp) then Some (unknown_type (Type newOp))
      else if table_rejects (Type lastOp) (Type newOp) (isLastInProgress s now lastOp)
                (isDeletionScheduled lastOp) (isReschedule lastOp newOp)
           then Some (ConcurrentOperationInProgress
                  (if Type lastOp = DELETE then deletion_in_progress else another_in_progress))
           else None)"
  by (cases "Type lastOp"; cases "Type newOp")
     (simp_all add: checkForConcurrentOperations_def known_type_def isLastInProgress_def
        isDeletionScheduled_def isReschedule_def IsZero_def Before_def Add_def)

theorem gate_matches_table_witness:
  "checkForConcurrentOperations sched 100 op_o2 op_o1 =
     Some (ConcurrentOperationInProgress another_in_progress) \<and>
   checkForConcurrentOperations sched 100 (op_o2\<lparr>Type := DELETE\<rparr>) op_o1 = None \<and>
   checkForConcurrentOperations sched 219 op_o2 op_o1 = None"
  using gate_matches_table [of sched 100 op_o2 op_o1]
    gate_matches_table [of sched 100 "op_o2\<lparr>Type := DELETE\<rparr>" op_o1]
    gate_matches_table [of sched 219 op_o2 op_o1]
  by (simp add: sched_def op_o1_def op_o2_def known_type_def isLastInProgress_def
        isDeletionScheduled_def isReschedule_def)

subsection \<open>A saturated pool\<close>

text \<open>
  C7. When the \<open>workers\<close> channel already holds \<open>poolSize\<close> tokens,
  \<open>ScheduleAsyncStorageAction\<close> returns the ServiceUnavailable error and leaves the
  whole state as it was: the repository is untouched and no goroutine is started.
\<close>

theorem saturated_pool_rejects:
  "poolSize s \<le> workers w \<Longrightarrow>
   ScheduleAsyncStorageAction x s w operation action = (Some ServiceUnavailable, w)"
  by (simp add: ScheduleAsyncStorageAction_def)

theorem saturated_pool_rejects_witness:
  "poolSize sched \<le> workers world_busy \<and>
   ScheduleAsyncStorageAction ext sched world_busy op_o2 action_fails =
     (Some ServiceUnavailable, world_busy)"
  using saturated_pool_rejects [of sched world_busy ext op_o2 action_fails]
  by (simp add: sched_def world_busy_def)

subsection \<open>Writes of the repository\<close>

lemma find_map_replace:
  "find (\<lambda>p. ID p = i) xs = Some q \<Longrightarrow> ID v = i \<Longrightarrow>
   find (\<lambda>p. ID p = i) (map (\<lambda>p. if ID p = i then v else p) xs) = Some v"
  by (induction xs) (auto split: if_splits)

lemma Update_operation_frame:
  "Update_operation st opr = (r, st') \<Longrightarrow> clock st' = clock st \<and> resources st' = resources st"
  by (auto simp: Update_operation_def take_fault_def split: list.splits option.splits)

lemma Update_operation_failed:
  "Update_operation st opr = (Some e, st') \<Longrightarrow> operations st' = operations st"
  by (auto simp: Update_operation_def take_fault_def split: list.splits option.splits)

lemma Update_operation_written:
  "Update_operation st opr = (None, st') \<Longrightarrow>
   operations st' =
     map (\<lambda>p. if ID p = ID opr then opr\<lparr>UpdatedAt := clock st\<rparr> else p) (operations st)"
  by (auto simp: Update_operation_def take_fault_def split: list.splits option.splits)

lemma Update_operation_found:
  "Update_operation st opr = (None, st') \<Longrightarrow>
   find (\<lambda>p. ID p = ID opr) (operations st') = Some (opr\<lparr>UpdatedAt := clock st\<rparr>)"
  by (auto simp: Update_operation_def take_fault_def find_map_replace
      split: list.splits option.splits)

subsection \<open>Storing the admitted operation\<close>

lemma Create_operation_cases:
  "Create_operation st opr = (r, st') \<Longrightarrow>
   clock st' = clock st \<and> resources st' = resources st \<and>
   operations st' = (case r of None \<Rightarrow> opr # operations st | Some e \<Rightarrow> operations st)"
  by (auto simp: Create_operation_def take_fault_def split: list.splits option.splits)

text \<open>
  C5, as the code has it. After the gate, \<open>storeOrUpdateOperation\<close> creates a new
  record when there is no last operation or the ids differ; otherwise it updates the
  record in place when the new operation is a reschedule or the \<^emph>\<open>new\<close> operation's
  \<open>DeletionScheduled\<close> is non-zero; otherwise it returns the error "operation with this
  id was already executed" and leaves the store as it was. A create or update that fails
  leaves the stored operations unchanged.
\<close>

theorem storeOrUpdate_persists:
  assumes "storeOrUpdateOperation x st operation lastOperation = (r, st')"
  shows "resources st' = resources st \<and>
    (if (case lastOperation of None \<Rightarrow> True | Some lastOp \<Rightarrow> ID operation \<noteq> ID lastOp) then
       operations st' = (case r of None \<Rightarrow> operation # operations st | Some e \<Rightarrow> operations st)
     else if Reschedule operation \<or> DeletionScheduled operation \<noteq> 0 then
       operations st' =
         (case r of
            None \<Rightarrow> map (\<lambda>p. if ID p = ID operation then operation\<lparr>UpdatedAt := clock st\<rparr> else p)
                     (operations st)
          | Some e \<Rightarrow> operations st)
     else r = Some already_executed \<and> st' = st)"
proof -
  consider (create) "case lastOperation of None \<Rightarrow> True | Some lastOp \<Rightarrow> ID operation \<noteq> ID lastOp"
    | (update) "\<not> (case lastOperation of None \<Rightarrow> True | Some lastOp \<Rightarrow> ID operation \<noteq> ID lastOp)"
        "Reschedule operation \<or> DeletionScheduled operation \<noteq> 0"
    | (reject) "\<not> (case lastOperation of None \<Rightarrow> True | Some lastOp \<Rightarrow> ID operation \<noteq> ID lastOp)"
        "\<not> (Reschedule operation \<or> DeletionScheduled operation \<noteq> 0)"
    by blast
  then show ?thesis
  proof cases
    case create
    obtain cr cst where c: "Create_operation st operation = (cr, cst)"
      by (cases "Create_operation st operation")
    with assms create have "st' = cst" "(r = None) = (cr = None)"
      by (auto simp: storeOrUpdateOperation_def split: option.splits)
    with Create_operation_cases [OF c] create show ?thesis
      by (auto split: option.splits)
  next
    case update
    obtain ur ust where u: "Update_operation st operation = (ur, ust)"
      by (cases "Update_operation st operation")
    with assms update have eq: "st' = ust" "(r = None) = (ur = None)"
      by (auto simp: storeOrUpdateOperation_def IsZero_def split: option.splits)
    show ?thesis
    proof (cases ur)
      case None
      with u eq Update_operation_written [of st operation ust]
        Update_operation_frame [of st operation ur ust] update
      show ?thesis by auto
    next
      case (Some e)
      with u eq Update_operation_failed [of st operation e ust]
        Update_operation_frame [of st operation ur ust] update
      show ?thesis by auto
    qed
  next
    case reject
    with assms show ?thesis
      by (auto simp: storeOrUpdateOperation_def IsZero_def)
  qed
qed

theorem storeOrUpdate_persists_witness:
  "storeOrUpdateOperation ext store_o1 op_o2 (Some op_o1) =
     (None, store_o1\<lparr>operations := [op_o2, op_o1]\<rparr>) \<and>
   storeOrUpdateOperation ext store_mitigated op_mitigated (Some op_mitigated) =
     (None, store_mitigated\<lparr>operations := [op_mitigated\<lparr>UpdatedAt := 100\<rparr>]\<rparr>) \<and>
   storeOrUpdateOperation ext store_o1 op_o1 (Some op_o1) = (Some already_executed, store_o1)"
  using storeOrUpdate_persists [of ext store_o1 op_o2 "Some op_o1" None
      "store_o1\<lparr>operations := [op_o2, op_o1]\<rparr>"]
    storeOrUpdate_persists [of ext store_mitigated op_mitigated "Some op_mitigated" None
      "store_mitigated\<lparr>operations := [op_mitigated\<lparr>UpdatedAt := 100\<rparr>]\<rparr>"]
    storeOrUpdate_persists [of ext store_o1 op_o1 "Some op_o1" "Some already_executed" store_o1]
  by (simp add: storeOrUpdateOperation_def IsZero_def eval_defs)

text \<open>
  C5 as stated reads the deletion flag off the last operation. With the same id, a last
  operation that has a deletion scheduled and a new operation that has none and is no
  reschedule, the gate admits and the store step rejects instead of updating.
\<close>

theorem storeOrUpdate_last_deletion_counterexample:
  "ID op_o1 = ID op_mitigated \<and> \<not> Reschedule op_o1 \<and> isDeletionScheduled op_mitigated \<and>
   checkForConcurrentOperations sched (clock store_mitigated) op_o1 op_mitigated = None \<and>
   storeOrUpdateOperation ext store_mitigated op_o1 (Some op_mitigated) =
     (Some already_executed, store_mitigated) \<and>
   executeOperationPreconditions ext sched store_mitigated op_o1 =
     (Some already_executed, store_mitigated)"
  by (simp add: storeOrUpdateOperation_def executeOperationPreconditions_def
      getResourceLastOperation_def checkForConcurrentOperations_def isDeletionScheduled_def
      IsZero_def Before_def Add_def eval_defs)

subsection \<open>A cooperative action stays in progress\<close>

lemma refetchOperation_Inr:
  assumes "refetchOperation x st operation = (Inr refetched, st')"
  shows "operations st' = operations st \<and> resources st' = resources st \<and>
         clock st' = clock st \<and>
         find (\<lambda>p. ID p = ID operation) (operations st) = Some refetched"
  using assms
  by (auto simp: refetchOperation_def Get_operation_def take_fault_def Let_def
      split: list.splits option.splits prod.splits sum.splits)

text \<open>
  C9. When the action returned no error, the re-fetch succeeded with an operation that
  has \<open>Reschedule\<close> set, and the operation could be put into the context, the
  reconciler returns the action's object with a nil error and writes nothing: the stored
  operations and resources are those from before, and the operation's record is still
  the re-fetched one, with its state, \<open>DeletionScheduled\<close> and \<open>Errors\<close>.
\<close>

theorem reschedule_keeps_in_progress:
  assumes "refetchOperation x (repository w) opBeforeJob = (Inr refetched, st)"
    and "Reschedule refetched"
    and "opcontext_Set x (refetched\<lparr>TransitiveResources := TransitiveResources opBeforeJob\<rparr>) = None"
  shows "handleActionResponse x s w actionObject None opBeforeJob =
           (Return (actionObject, None), w\<lparr>repository := st\<rparr>) \<and>
         operations st = operations (repository w) \<and>
         resources st = resources (repository w) \<and>
         find (\<lambda>p. ID p = ID opBeforeJob) (operations st) = Some refetched"
  using assms refetchOperation_Inr [OF assms(1)]
  by (simp add: handleActionResponse_def addOperationToContext_def Let_def)

theorem reschedule_keeps_in_progress_witness:
  "handleActionResponse ext sched world_resched (Some binding_r1) None op_resched =
     (Return (Some binding_r1, None), world_resched) \<and>
   Reschedule op_resched \<and> State op_resched = IN_PROGRESS \<and>
   find (\<lambda>p. ID p = ID op_resched) (operations (repository world_resched)) = Some op_resched"
  using reschedule_keeps_in_progress [where x = ext and w = world_resched
      and opBeforeJob = op_resched and refetched = op_resched
      and st = "repository world_resched" and s = sched and actionObject = "Some binding_r1"]
  by (simp add: refetchOperation_def op_resched_def world_resched_def eval_defs)

subsection \<open>Updating the Ready flag\<close>

lemma find_replace_same:
  "find P xs = Some q \<Longrightarrow> P v \<Longrightarrow> find P (map (\<lambda>p. if P p then v else p) xs) = Some v"
  by (induction xs) (auto split: if_splits)

lemma find_replace_other:
  "\<forall>p. P p \<longrightarrow> \<not> Q p \<Longrightarrow> \<not> Q v \<Longrightarrow>
   find Q (map (\<lambda>p. if P p then v else p) xs) = find Q xs"
  by (induction xs) auto

lemma is_object_SetReady [simp]:
  "is_object ty i (SetReady b obj) = is_object ty i obj"
  by (simp add: is_object_def SetReady_def)

lemma Update_object_frame:
  "Update_object st obj = (r, st') \<Longrightarrow> operations st' = operations st \<and> clock st' = clock st"
  by (auto simp: Update_object_def take_fault_def split: list.splits option.splits)

lemma Update_object_failed:
  "Update_object st obj = (Inl e, st') \<Longrightarrow> resources st' = resources st"
  by (auto simp: Update_object_def take_fault_def split: list.splits option.splits)

lemma Update_object_Inr:
  "Update_object st obj = (Inr u, st') \<Longrightarrow>
   u = obj \<and> find (is_object (GetType obj) (GetID obj)) (resources st) \<noteq> None \<and>
   resources st' =
     map (\<lambda>p. if is_object (GetType obj) (GetID obj) p then obj else p) (resources st)"
  unfolding Update_object_def take_fault_def
  by (cases "faults st"; cases "find (is_object (GetType obj) (GetID obj)) (resources st)")
     (auto split: option.splits)

lemma Update_object_written:
  assumes "Update_object st obj = (Inr u, st')"
  shows "u = obj \<and>
     stored_object st' ty i =
       (if ty = GetType obj \<and> i = GetID obj then Some obj else stored_object st ty i)"
proof -
  from Update_object_Inr [OF assms] obtain old where
    old: "find (is_object (GetType obj) (GetID obj)) (resources st) = Some old"
    and res: "resources st' =
      map (\<lambda>p. if is_object (GetType obj) (GetID obj) p then obj else p) (resources st)"
    and u: "u = obj"
    by blast
  show ?thesis
  proof (cases "ty = GetType obj \<and> i = GetID obj")
    case True
    have "is_object (GetType obj) (GetID obj) obj" by (simp add: is_object_def)
    from find_replace_same [OF old this] True res u show ?thesis
      by (simp add: stored_object_def)
  next
    case False
    have "\<forall>p. is_object (GetType obj) (GetID obj) p \<longrightarrow> \<not> is_object ty i p"
      using False by (auto simp: is_object_def)
    moreover have "\<not> is_object ty i obj" using False by (auto simp: is_object_def)
    ultimately have "find (is_object ty i) (resources st') = find (is_object ty i) (resources st)"
      unfolding res by (rule find_replace_other)
    with False u show ?thesis by (auto simp: stored_object_def)
  qed
qed

lemma Get_object_result:
  "Get_object st ty i = (r, st') \<Longrightarrow>
   operations st' = operations st \<and> clock st' = clock st \<and> resources st' = resources st \<and>
   (case r of
      Inr obj \<Rightarrow> stored_object st ty i = Some obj
    | Inl e \<Rightarrow> e = ErrNotFoundInStorage \<longrightarrow> stored_object st ty i = None)"
  by (auto simp: Get_object_def take_fault_def stored_object_def
      split: list.splits option.splits)

lemma find_is_object:
  "find (is_object ty i) xs = Some obj \<Longrightarrow> GetType obj = ty \<and> GetID obj = i"
  by (induction xs) (auto simp: is_object_def split: if_splits)

lemma fetchAndUpdateResource_no_panic:
  "fetchAndUpdateResource st i ty f \<noteq> (Panic p, st')"
  by (auto simp: fetchAndUpdateResource_def updateResource_def
      split: prod.splits sum.splits option.splits if_splits)

lemma fetchAndUpdateResource_frame:
  "fetchAndUpdateResource st i ty f = (r, st') \<Longrightarrow>
   operations st' = operations st \<and> clock st' = clock st"
  by (auto simp: fetchAndUpdateResource_def updateResource_def
      split: prod.splits sum.splits option.splits if_splits
      dest!: Get_object_result Update_object_frame)

lemma fetchAndUpdateResource_failed:
  "fetchAndUpdateResource st i ty f = (Return (Some e), st') \<Longrightarrow>
   resources st' = resources st"
  by (auto simp: fetchAndUpdateResource_def updateResource_def
      split: prod.splits sum.splits option.splits if_splits
      dest!: Get_object_result Update_object_failed)

lemma fetchAndUpdateResource_done:
  assumes "fetchAndUpdateResource st i ty (SetReady b) = (Return None, st')"
  shows "stored_object st' ty' i' =
     (if ty' = ty \<and> i' = i then map_option (SetReady b) (stored_object st ty i)
      else stored_object st ty' i')"
proof -
  obtain g st1 where g: "Get_object st ty i = (g, st1)" by (cases "Get_object st ty i")
  note G = Get_object_result [OF g]
  show ?thesis
  proof (cases g)
    case (Inl e)
    with assms g have "e = ErrNotFoundInStorage" "st' = st1"
      by (auto simp: fetchAndUpdateResource_def split: if_splits)
    with G Inl show ?thesis by (auto simp: stored_object_def)
  next
    case (Inr obj)
    with G have so: "stored_object st ty i = Some obj" by simp
    then have key: "GetType obj = ty \<and> GetID obj = i"
      by (auto simp: stored_object_def dest: find_is_object)
    from assms g Inr obtain u where
      u: "Update_object st1 (SetReady b obj) = (Inr u, st')"
      by (auto simp: fetchAndUpdateResource_def updateResource_def
          split: prod.splits sum.splits)
    have so1: "stored_object st1 ty' i' = stored_object st ty' i'" for ty' i'
      using G by (simp add: stored_object_def)
    from Update_object_written [OF u, of ty' i'] key so so1 show ?thesis
      by (auto simp: SetReady_def)
  qed
qed

lemma updateTransitiveResources_no_panic:
  "updateTransitiveResources st trs f \<noteq> (Panic p, st')"
proof (induction trs arbitrary: st)
  case Nil
  then show ?case by simp
next
  case (Cons trR rest)
  show ?case
  proof (cases "rt_OperationType trR = CREATE")
    case True
    obtain r st1 where f: "fetchAndUpdateResource st (rt_ID trR) (rt_Type trR) f = (r, st1)"
      by (cases "fetchAndUpdateResource st (rt_ID trR) (rt_Type trR) f")
    with fetchAndUpdateResource_no_panic [of st "rt_ID trR" "rt_Type trR" f p st1]
    have "r \<noteq> Panic p" by auto
    with True f Cons.IH [of st1] show ?thesis
      by (auto simp: andThen_def split: result.splits option.splits)
  next
    case False
    with Cons.IH [of st] show ?thesis by simp
  qed
qed

lemma updateTransitiveResources_frame:
  "updateTransitiveResources st trs f = (r, st') \<Longrightarrow>
   operations st' = operations st \<and> clock st' = clock st"
proof (induction trs arbitrary: st)
  case Nil
  then show ?case by simp
next
  case (Cons trR rest)
  show ?case
  proof (cases "rt_OperationType trR = CREATE")
    case True
    obtain r1 st1 where f: "fetchAndUpdateResource st (rt_ID trR) (rt_Type trR) f = (r1, st1)"
      by (cases "fetchAndUpdateResource st (rt_ID trR) (rt_Type trR) f")
    note F = fetchAndUpdateResource_frame [OF f]
    show ?thesis
    proof (cases "r1 = Return None")
      case True
      with Cons.prems \<open>rt_OperationType trR = CREATE\<close> f
      have "updateTransitiveResources st1 rest f = (r, st')"
        by (simp add: andThen_def)
      from Cons.IH [OF this] F show ?thesis by simp
    next
      case False
      with Cons.prems \<open>rt_OperationType trR = CREATE\<close> f
      have "st' = st1"
        by (auto simp: andThen_def split: result.splits option.splits)
      with F show ?thesis by simp
    qed
  next
    case False
    with Cons show ?thesis by simp
  qed
qed

lemma updateTransitiveResources_done:
  "updateTransitiveResources st trs (SetReady b) = (Return None, st') \<Longrightarrow>
   stored_object st' ty i =
     (if (ty, i) \<in> transitive_CREATE trs then map_option (SetReady b) (stored_object st ty i)
      else stored_object st ty i)"
proof (induction trs arbitrary: st)
  case Nil
  then show ?case by (simp add: transitive_CREATE_def)
next
  case (Cons trR rest)
  show ?case
  proof (cases "rt_OperationType trR = CREATE")
    case True
    obtain r1 st1 where
      f: "fetchAndUpdateResource st (rt_ID trR) (rt_Type trR) (SetReady b) = (r1, st1)"
      by (cases "fetchAndUpdateResource st (rt_ID trR) (rt_Type trR) (SetReady b)")
    have r1: "r1 = Return None"
    proof (rule ccontr)
      assume "r1 \<noteq> Return None"
      with Cons.prems True f show False
        by (auto simp: andThen_def split: result.splits option.splits)
    qed
    with Cons.prems True f have rest: "updateTransitiveResources st1 rest (SetReady b) = (Return None, st')"
      by (simp add: andThen_def)
    have keys: "transitive_CREATE (trR # rest) = insert (rt_Type trR, rt_ID trR) (transitive_CREATE rest)"
      using True by (auto simp: transitive_CREATE_def)
    have idem: "map_option (SetReady b) (map_option (SetReady b) z) = map_option (SetReady b) z" for z
      by (cases z) (simp_all add: SetReady_def)
    from f r1 have step: "stored_object st1 ty i =
        (if ty = rt_Type trR \<and> i = rt_ID trR
         then map_option (SetReady b) (stored_object st (rt_Type trR) (rt_ID trR))
         else stored_object st ty i)"
      by (simp add: fetchAndUpdateResource_done)
    show ?thesis
      unfolding Cons.IH [OF rest] keys step by (auto simp: idem)
  next
    case False
    then have keys: "transitive_CREATE (trR # rest) = transitive_CREATE rest"
      by (auto simp: transitive_CREATE_def)
    from Cons.prems False have "updateTransitiveResources st rest (SetReady b) = (Return None, st')"
      by simp
    from Cons.IH [OF this] keys show ?thesis by simp
  qed
qed

subsection \<open>Writes of the operation state and transactions\<close>

lemma updateOperationState_frame:
  "updateOperationState x st operation state opErr = (op', r, st') \<Longrightarrow>
   resources st' = resources st \<and> clock st' = clock st \<and>
   ID op' = ID operation \<and> State op' = state \<and> Type op' = Type operation \<and>
   DeletionScheduled op' = DeletionScheduled operation \<and>
   ResourceID op' = ResourceID operation \<and> ResourceType op' = ResourceType operation \<and>
   TransitiveResources op' = TransitiveResources operation \<and>
   Reschedule op' = Reschedule operation"
  by (auto simp: updateOperationState_def Let_def
      split: option.splits sum.splits prod.splits if_splits dest: Update_operation_frame)

lemma updateOperationState_Update:
  "updateOperationState x st operation state opErr = (op', None, st') \<Longrightarrow>
   Update_operation st op' = (None, st')"
  by (auto simp: updateOperationState_def Let_def
      split: option.splits sum.splits prod.splits if_splits)

lemma updateOperationState_stored:
  assumes "updateOperationState x st operation state opErr = (op', None, st')"
  shows "stored_operation st' (ID operation) = Some (op'\<lparr>UpdatedAt := clock st\<rparr>)"
proof -
  have "ID op' = ID operation" using updateOperationState_frame [OF assms] by simp
  with Update_operation_found [OF updateOperationState_Update [OF assms]]
  show ?thesis by (simp add: stored_operation_def)
qed


lemma InTransaction_committed:
  assumes "InTransaction st f = (a, Return None, st')"
  shows "\<exists>st1. f st = (a, Return None, st1) \<and> operations st' = operations st1 \<and>
          resources st' = resources st1 \<and> clock st' = clock st1"
proof -
  obtain a1 r1 st1 where f: "f st = (a1, r1, st1)" by (cases "f st") auto
  show ?thesis
  proof (cases "r1 = Return None")
    case True
    with assms f show ?thesis
      by (auto simp: InTransaction_def take_fault_def rollback_def
          split: list.splits option.splits)
  next
    case False
    with assms f show ?thesis
      by (auto simp: InTransaction_def split: result.splits option.splits)
  qed
qed

lemma failure_transaction_committed:
  assumes "failure_transaction x actionError opAfterJob st = (op', Return None, st')"
  shows "\<exists>st1. (if Type opAfterJob = CREATE \<and> State opAfterJob = FAILED then
              andThen
                (fetchAndUpdateResource st (ResourceID opAfterJob) (ResourceType opAfterJob)
                   (SetReady False))
                (\<lambda>st'. updateTransitiveResources st' (TransitiveResources opAfterJob)
                   (SetReady False))
            else (Return None, st)) = (Return None, st1) \<and>
          updateOperationState x st1 opAfterJob FAILED (Some actionError) = (op', None, st')"
  using assms unfolding failure_transaction_def
  by (auto split: prod.splits result.splits option.splits)

subsection \<open>The failure path of a CREATE\<close>

text \<open>
  What the guarded branch of the failure path does when it is taken. The guard is
  \<open>opAfterJob.Type == CREATE && opAfterJob.State == FAILED\<close>, read before the state is
  written: for a re-fetched CREATE that is already FAILED, a committed transaction stores
  the operation as FAILED and sets Ready to false on the primary resource and on every
  transitive resource of op-type CREATE that exists.
\<close>

lemma failed_CREATE_guarded_reset:
  assumes "Type opAfterJob = CREATE" and "State opAfterJob = FAILED"
    and "InTransaction st (failure_transaction x actionError opAfterJob) = (op', Return None, st')"
  shows "State op' = FAILED \<and>
     stored_operation st' (ID opAfterJob) = Some (op'\<lparr>UpdatedAt := clock st\<rparr>) \<and>
     stored_object st' (ResourceType opAfterJob) (ResourceID opAfterJob) =
       map_option (SetReady False)
         (stored_object st (ResourceType opAfterJob) (ResourceID opAfterJob)) \<and>
     (\<forall>trR \<in> set (TransitiveResources opAfterJob). rt_OperationType trR = CREATE \<longrightarrow>
        stored_object st' (rt_Type trR) (rt_ID trR) =
          map_option (SetReady False) (stored_object st (rt_Type trR) (rt_ID trR)))"
proof -
  from InTransaction_committed [OF assms(3)] obtain st3 where
    tx: "failure_transaction x actionError opAfterJob st = (op', Return None, st3)"
    and eq: "operations st' = operations st3" "resources st' = resources st3"
    by blast
  from failure_transaction_committed [OF tx] assms(1,2) obtain st2 where
    ready: "andThen
        (fetchAndUpdateResource st (ResourceID opAfterJob) (ResourceType opAfterJob)
           (SetReady False))
        (\<lambda>st'. updateTransitiveResources st' (TransitiveResources opAfterJob)
           (SetReady False)) = (Return None, st2)"
    and upd: "updateOperationState x st2 opAfterJob FAILED (Some actionError) = (op', None, st3)"
    by auto
  obtain r1 st1 where
    f: "fetchAndUpdateResource st (ResourceID opAfterJob) (ResourceType opAfterJob)
          (SetReady False) = (r1, st1)"
    by (cases "fetchAndUpdateResource st (ResourceID opAfterJob) (ResourceType opAfterJob)
          (SetReady False)")
  have r1: "r1 = Return None"
  proof (rule ccontr)
    assume "r1 \<noteq> Return None"
    with ready f show False by (auto simp: andThen_def split: result.splits option.splits)
  qed
  with ready f have
    trs: "updateTransitiveResources st1 (TransitiveResources opAfterJob) (SetReady False) =
            (Return None, st2)"
    by (simp add: andThen_def)
  have clock2: "clock st2 = clock st"
    using fetchAndUpdateResource_frame [OF f] updateTransitiveResources_frame [OF trs] by simp
  have idem: "map_option (SetReady False) (map_option (SetReady False) z) =
      map_option (SetReady False) z" for z
    by (cases z) (simp_all add: SetReady_def)
  have obj: "stored_object st' ty i =
      (if (ty, i) \<in> insert (ResourceType opAfterJob, ResourceID opAfterJob)
                     (transitive_CREATE (TransitiveResources opAfterJob))
       then map_option (SetReady False) (stored_object st ty i) else stored_object st ty i)"
    for ty i
  proof -
    have "stored_object st' ty i = stored_object st2 ty i"
      using eq updateOperationState_frame [OF upd] by (simp add: stored_object_def)
    also have "\<dots> = (if (ty, i) \<in> transitive_CREATE (TransitiveResources opAfterJob)
        then map_option (SetReady False) (stored_object st1 ty i) else stored_object st1 ty i)"
      by (rule updateTransitiveResources_done [OF trs])
    finally show ?thesis
      using f r1 by (auto simp: fetchAndUpdateResource_done idem)
  qed
  have st: "State op' = FAILED" using updateOperationState_frame [OF upd] by simp
  have so: "stored_operation st' (ID opAfterJob) = Some (op'\<lparr>UpdatedAt := clock st\<rparr>)"
    using updateOperationState_stored [OF upd] eq clock2 by (simp add: stored_operation_def)
  have tr: "\<forall>trR \<in> set (TransitiveResources opAfterJob). rt_OperationType trR = CREATE \<longrightarrow>
        stored_object st' (rt_Type trR) (rt_ID trR) =
          map_option (SetReady False) (stored_object st (rt_Type trR) (rt_ID trR))"
    unfolding obj by (auto simp: transitive_CREATE_def)
  show ?thesis using st so tr obj by simp
qed

text \<open>
  C1. A failed CREATE should leave the primary resource and its transitive CREATE
  resources with Ready false. The guard of the failure path reads the state of the
  re-fetched operation before FAILED is written, so for a CREATE that fails on its first
  run (stored IN_PROGRESS) the reset is skipped: the synchronous entry point stores the
  operation, the action fails, the operation is written as FAILED, and the binding and
  the transitive instance keep Ready set.
\<close>

theorem failed_CREATE_keeps_ready:
  "Type op_transitive = CREATE \<and>
   ScheduleSyncStorageAction ext sched
       (world_idle\<lparr>repository := store_transitive\<lparr>operations := []\<rparr>\<rparr>) op_transitive
       action_fails =
     (Return (None, Some broker_failed),
      world_idle\<lparr>repository := store_transitive\<lparr>
        operations := [op_transitive\<lparr>State := FAILED, Errors := ''{error}'', UpdatedAt := 100\<rparr>]\<rparr>\<rparr>) \<and>
   resources store_transitive = [binding_r1, instance_i1] \<and>
   Ready binding_r1 \<and> Ready instance_i1"
  by (simp add: eval_defs Let_def)

subsection \<open>The success path\<close>




lemma find_Some_holds: "find P xs = Some x \<Longrightarrow> P x"
  by (induction xs) (auto split: if_splits)







subsection \<open>A nil object on the success path\<close>

text \<open>
  C10. An action of a CREATE may return a nil object with a nil error. On the success
  path with final state SUCCEEDED, \<open>updateResource\<close> calls \<open>SetReady\<close> on that nil
  object: the synchronous entry point stores the operation, runs the action and then
  panics with a nil dereference; the transaction is rolled back and the operation stays
  IN_PROGRESS.
\<close>

theorem nil_object_CREATE_panics:
  "ScheduleSyncStorageAction ext sched
       (world_idle\<lparr>repository := store_o1\<lparr>operations := []\<rparr>\<rparr>) op_o1 action_nil =
     (Panic nil_dereference, world_idle\<lparr>repository := store_o1\<rparr>) \<and>
   updateResource store_o1 None (SetReady True) = (Panic nil_dereference, store_o1)"
  by (simp add: eval_defs)


subsection \<open>A panic of the action and a failed re-fetch\<close>

text \<open>
  The exits of the goroutine. A body that returns, and a panic whose re-fetch succeeds,
  end with the token taken back and the wait-group decremented; after the panic the
  re-fetched operation is set to FAILED with the "job interrupted" error. A panic whose
  re-fetch fails ends in a second panic with neither released.
\<close>

lemma worker_returns_releases:
  "worker_body x s w operation action = (Return u, operation', w1) \<Longrightarrow>
   worker x s w operation action = (Return (), release w1)"
  by (simp add: worker_def worker_deferred_def)

lemma worker_panic_recovered:
  assumes "worker_body x s w operation action = (Panic p, operation', w1)"
    and "refetchOperation x (repository w1) operation' = (Inr opr, st)"
  shows "\<exists>opr' e st'.
     updateOperationState x st opr FAILED (Some job_interrupted) = (opr', e, st') \<and>
     State opr' = FAILED \<and>
     worker x s w operation action = (Return (), release (w1\<lparr>repository := st'\<rparr>))"
proof -
  obtain opr' e st' where
    u: "updateOperationState x st opr FAILED (Some job_interrupted) = (opr', e, st')"
    by (cases "updateOperationState x st opr FAILED (Some job_interrupted)") auto
  from updateOperationState_frame [OF u] have "State opr' = FAILED" by simp
  with assms u show ?thesis by (simp add: worker_def worker_deferred_def)
qed

lemma worker_panic_refetch_failed:
  assumes "worker_body x s w operation action = (Panic p, operation', w1)"
    and "refetchOperation x (repository w1) operation' = (Inl opErr, st)"
  shows "worker x s w operation action = (Panic nil_dereference, w1\<lparr>repository := st\<rparr>)"
  using assms by (simp add: worker_def worker_deferred_def)

text \<open>
  C8. The action panics and the re-fetch in the deferred function fails with a storage
  error. \<open>refetchOperation\<close> marks the operation it was given as FAILED with the
  re-fetch error and returns a nil operation; \<open>updateOperationState\<close> on that nil
  operation panics inside the deferred function. The panic leaves the goroutine, the
  token stays in \<open>workers\<close> and the wait-group keeps its count.
\<close>

theorem panic_with_failed_refetch_escapes:
  "worker ext sched world_running op_o1 action_panics =
     (Panic nil_dereference,
      world_busy\<lparr>repository := store_o1\<lparr>operations :=
        [op_o1\<lparr>State := FAILED, Errors := ''{error}'', UpdatedAt := 100\<rparr>]\<rparr>\<rparr>) \<and>
   workers world_running = 1 \<and> wg world_running = 1 \<and> workers world_busy = 1 \<and>
   wg world_busy = 1"
  by (simp add: eval_defs)

subsection \<open>Orphan mitigation\<close>

lemma find_filter_not: "find P (filter (\<lambda>p. \<not> P p) xs) = None"
  by (induction xs) auto

lemma deletionAction_result:
  "\<exists>e st1. deletionAction x opAfterJob operation st0 = (Return (None, e), operation, st1) \<and>
     (fst (take_fault st0) = None \<longrightarrow>
        e = None \<and>
        stored_object st1 (ResourceType opAfterJob) (ResourceID opAfterJob) = None)"
  by (auto simp: deletionAction_def Delete_object_def stored_object_def find_filter_not
      take_fault_def split: prod.splits option.splits list.splits)

lemma ScheduleAsync_admitted:
  "ScheduleAsyncStorageAction x s w operation action = (None, w') \<Longrightarrow>
   goroutines w' = goroutines w @ [(operation, action)] \<and>
   workers w' = workers w + 1 \<and> wg w' = wg w + 1"
  by (auto simp: ScheduleAsyncStorageAction_def Let_def split: if_splits prod.splits option.splits)

lemma failure_transaction_result:
  assumes "InTransaction st0 (failure_transaction x actionError opAfterJob) = (op', Return None, st)"
  shows "ID op' = ID opAfterJob \<and> State op' = FAILED \<and>
         DeletionScheduled op' = DeletionScheduled opAfterJob \<and>
         ResourceID op' = ResourceID opAfterJob \<and> ResourceType op' = ResourceType opAfterJob \<and>
         Type op' = Type opAfterJob"
proof -
  from InTransaction_committed [OF assms] obtain st3 where
    "failure_transaction x actionError opAfterJob st0 = (op', Return None, st3)" by blast
  from failure_transaction_committed [OF this] obtain st1 where
    "updateOperationState x st1 opAfterJob FAILED (Some actionError) = (op', None, st3)" by blast
  from updateOperationState_frame [OF this] show ?thesis by simp
qed

text \<open>
  C3. Once the transaction of the failure path has committed the FAILED operation:
  mitigation is required exactly when \<open>DeletionScheduled\<close> is non-zero, the clock is
  before \<open>DeletionScheduled + reconciliationOperationTimeout\<close> and the state is not
  SUCCEEDED (which the FAILED state written just before makes true). When it is not
  required the original action error is returned. When it is required and the lifecycle
  context is not cancelled during the wait, the same operation, with the same id, is
  handed to \<open>ScheduleAsyncStorageAction\<close> after the delay with the synthesized delete
  action: a failed admission gives a BrokerError made of the action error and the
  admission error, a successful one starts the goroutine and gives the original action
  error. The delete action never returns an object; without a storage fault it removes
  the resource \<open>(ResourceType, ResourceID)\<close> and returns a nil error, also when the
  resource was not found.
\<close>

theorem orphan_mitigation:
  assumes "InTransaction (repository w) (failure_transaction x actionError opAfterJob) =
             (op', Return None, st)"
  shows "ID op' = ID opAfterJob \<and>
     ResourceID op' = ResourceID opAfterJob \<and> ResourceType op' = ResourceType opAfterJob \<and>
     isDeleteRescheduleRequired s (clock st) op' = isMitigationRequired s (clock st) op' \<and>
     isMitigationRequired s (clock st) op' =
       (DeletionScheduled opAfterJob \<noteq> 0 \<and>
        clock st < DeletionScheduled opAfterJob + reconciliationOperationTimeout s) \<and>
     (\<not> isMitigationRequired s (clock st) op' \<longrightarrow>
        handleActionResponseFailure x s w actionError opAfterJob =
          (Return (Some actionError), w\<lparr>repository := st\<rparr>)) \<and>
     (isMitigationRequired s (clock st) op' \<and> \<not> smCtxDone w \<longrightarrow>
        (\<forall>admission w'.
           ScheduleAsyncStorageAction x s (after_delay s w st) op' (deletionAction x op') =
             (admission, w') \<longrightarrow>
           handleActionResponseFailure x s w actionError opAfterJob =
             (Return (Some (case admission of
                              None \<Rightarrow> actionError
                            | Some orphanMitigationErr \<Rightarrow>
                                BrokerError actionError orphanMitigationErr)), w') \<and>
           (admission = None \<longrightarrow>
              goroutines w' = goroutines w @ [(op', deletionAction x op')]))) \<and>
     (\<forall>operation st0. \<exists>e st1.
        deletionAction x op' operation st0 = (Return (None, e), operation, st1) \<and>
        (fst (take_fault st0) = None \<longrightarrow>
           e = None \<and>
           stored_object st1 (ResourceType opAfterJob) (ResourceID opAfterJob) = None))"
proof -
  note R = failure_transaction_result [OF assms]
  have a: "isDeleteRescheduleRequired s (clock st) op' = isMitigationRequired s (clock st) op'"
    by (simp add: isDeleteRescheduleRequired_def isMitigationRequired_def IsZero_def
        Before_def Add_def)
  have b: "isMitigationRequired s (clock st) op' =
       (DeletionScheduled opAfterJob \<noteq> 0 \<and>
        clock st < DeletionScheduled opAfterJob + reconciliationOperationTimeout s)"
    using R by (simp add: isMitigationRequired_def)
  have c: "\<not> isMitigationRequired s (clock st) op' \<longrightarrow>
        handleActionResponseFailure x s w actionError opAfterJob =
          (Return (Some actionError), w\<lparr>repository := st\<rparr>)"
    using assms a by (simp add: handleActionResponseFailure_def)
  have d: "isMitigationRequired s (clock st) op' \<and> \<not> smCtxDone w \<longrightarrow>
        (\<forall>admission w'.
           ScheduleAsyncStorageAction x s (after_delay s w st) op' (deletionAction x op') =
             (admission, w') \<longrightarrow>
           handleActionResponseFailure x s w actionError opAfterJob =
             (Return (Some (case admission of
                              None \<Rightarrow> actionError
                            | Some orphanMitigationErr \<Rightarrow>
                                BrokerError actionError orphanMitigationErr)), w') \<and>
           (admission = None \<longrightarrow>
              goroutines w' = goroutines w @ [(op', deletionAction x op')]))"
  proof (intro impI allI)
    fix admission w'
    assume req: "isMitigationRequired s (clock st) op' \<and> \<not> smCtxDone w"
      and adm: "ScheduleAsyncStorageAction x s (after_delay s w st) op' (deletionAction x op') =
             (admission, w')"
    have g: "admission = None \<longrightarrow> goroutines w' = goroutines w @ [(op', deletionAction x op')]"
    proof
      assume "admission = None"
      with adm ScheduleAsync_admitted [of x s "after_delay s w st" op' "deletionAction x op'" w']
      show "goroutines w' = goroutines w @ [(op', deletionAction x op')]"
        by (simp add: after_delay_def)
    qed
    have "handleActionResponseFailure x s w actionError opAfterJob =
             (Return (Some (case admission of
                              None \<Rightarrow> actionError
                            | Some orphanMitigationErr \<Rightarrow>
                                BrokerError actionError orphanMitigationErr)), w')"
      using assms a req adm
      by (cases admission) (simp_all add: handleActionResponseFailure_def after_delay_def)
    with g show "handleActionResponseFailure x s w actionError opAfterJob =
             (Return (Some (case admission of
                              None \<Rightarrow> actionError
                            | Some orphanMitigationErr \<Rightarrow>
                                BrokerError actionError orphanMitigationErr)), w') \<and>
           (admission = None \<longrightarrow>
              goroutines w' = goroutines w @ [(op', deletionAction x op')])"
      by simp
  qed
  have e: "\<forall>operation st0. \<exists>e st1.
        deletionAction x op' operation st0 = (Return (None, e), operation, st1) \<and>
        (fst (take_fault st0) = None \<longrightarrow>
           e = None \<and>
           stored_object st1 (ResourceType opAfterJob) (ResourceID opAfterJob) = None)"
    using deletionAction_result [of x op'] R by simp
  show ?thesis using R a b c d e by simp
qed

theorem orphan_mitigation_witness:
  "InTransaction (repository world_pending) (failure_transaction ext broker_failed op_pending) =
     (op_pending_failed, Return None,
      store_o1\<lparr>operations := [op_pending_failed\<lparr>UpdatedAt := 100\<rparr>]\<rparr>) \<and>
   isMitigationRequired sched 100 op_pending_failed \<and>
   handleActionResponseFailure ext sched world_pending broker_failed op_pending =
     (Return (Some broker_failed),
      world_idle\<lparr>repository := store_o1\<lparr>operations := [op_pending_failed\<lparr>UpdatedAt := 101\<rparr>],
                                          clock := 101\<rparr>,
                 workers := 1, wg := 1,
                 goroutines := [(op_pending_failed, deletionAction ext op_pending_failed)]\<rparr>) \<and>
   handleActionResponseFailure ext sched (world_pending\<lparr>workers := 1\<rparr>) broker_failed
       op_pending =
     (Return (Some (BrokerError broker_failed ServiceUnavailable)),
      world_idle\<lparr>repository := store_o1\<lparr>operations := [op_pending_failed\<lparr>UpdatedAt := 100\<rparr>],
                                          clock := 101\<rparr>,
                 workers := 1\<rparr>) \<and>
   \<not> isMitigationRequired sched 100 (op_o1\<lparr>State := FAILED, Errors := ''{error}''\<rparr>) \<and>
   handleActionResponseFailure ext sched world_idle broker_failed op_o1 =
     (Return (Some broker_failed),
      world_idle\<lparr>repository := store_o1\<lparr>operations :=
        [op_o1\<lparr>State := FAILED, Errors := ''{error}'', UpdatedAt := 100\<rparr>]\<rparr>\<rparr>) \<and>
   worker ext sched
       (world_idle\<lparr>repository := store_o1\<lparr>operations := [op_pending_failed\<lparr>UpdatedAt := 101\<rparr>],
                                           clock := 101\<rparr>,
                  workers := 1, wg := 1\<rparr>)
       op_pending_failed (deletionAction ext op_pending_failed) =
     (Return (),
      world_idle\<lparr>repository := store_o1\<lparr>
        operations := [op_pending_failed\<lparr>DeletionScheduled := 0, UpdatedAt := 101\<rparr>],
        resources := [], clock := 101\<rparr>\<rparr>)"
  using orphan_mitigation [where w = world_pending and x = ext and actionError = broker_failed
      and opAfterJob = op_pending and op' = op_pending_failed and s = sched
      and st = "store_o1\<lparr>operations := [op_pending_failed\<lparr>UpdatedAt := 100\<rparr>]\<rparr>"]
    orphan_mitigation [where w = world_idle and x = ext and actionError = broker_failed
      and opAfterJob = op_o1 and op' = "op_o1\<lparr>State := FAILED, Errors := ''{error}''\<rparr>"
      and s = sched
      and st = "store_o1\<lparr>operations :=
                  [op_o1\<lparr>State := FAILED, Errors := ''{error}'', UpdatedAt := 100\<rparr>]\<rparr>"]
  by (simp add: eval_defs Let_def)

subsection \<open>Errors are written once\<close>

text \<open>
  Every failure signal is written by \<open>updateOperationState\<close> on the operation the
  scheduler holds at that point. The lemmas follow each of these writes through the
  scheduler to the record that is stored afterwards.
\<close>

lemma updateOperationState_Errors_kept:
  "updateOperationState x st operation state opErr = (op', r, st') \<Longrightarrow>
   Errors operation \<noteq> [] \<Longrightarrow> Errors op' = Errors operation"
  by (auto simp: updateOperationState_def Let_def
      split: option.splits sum.splits prod.splits if_splits)

lemma updateOperationState_failed:
  "updateOperationState x st operation state opErr = (op', Some e, st') \<Longrightarrow>
   operations st' = operations st"
  by (auto simp: updateOperationState_def Let_def
      split: option.splits sum.splits prod.splits if_splits dest: Update_operation_failed)

lemma updateOperationState_stored_or:
  assumes "updateOperationState x st operation state opErr = (op', r, st')"
    and "Errors operation \<noteq> []"
  shows "stored_operation st' (ID operation) = stored_operation st (ID operation) \<or>
         stored_Errors st' (ID operation) = Some (Errors operation)"
proof (cases r)
  case None
  with assms(1) have "stored_operation st' (ID operation) = Some (op'\<lparr>UpdatedAt := clock st\<rparr>)"
    by (simp add: updateOperationState_stored)
  with updateOperationState_Errors_kept [OF assms] show ?thesis
    by (simp add: stored_Errors_def)
next
  case (Some e)
  with assms(1) have "operations st' = operations st"
    by (simp add: updateOperationState_failed)
  then show ?thesis by (simp add: stored_operation_def)
qed

lemma updateOperationState_keeps_stored_Errors:
  assumes "updateOperationState x st operation state opErr = (op', r, st')"
    and "Errors operation \<noteq> []"
    and "stored_Errors st (ID operation) = Some (Errors operation)"
  shows "stored_Errors st' (ID operation) = Some (Errors operation)"
  using updateOperationState_stored_or [OF assms(1,2)] assms(3)
  by (auto simp: stored_Errors_def)

lemma Get_operation_frame:
  "Get_operation st criteria = (r, st') \<Longrightarrow>
   operations st' = operations st \<and> resources st' = resources st \<and> clock st' = clock st"
  by (auto simp: Get_operation_def take_fault_def split: list.splits option.splits)

lemma storeOrUpdate_stored:
  assumes "storeOrUpdateOperation x st operation lastOperation = (r, st')"
  shows "stored_operation st' (ID operation) = stored_operation st (ID operation) \<or>
         stored_Errors st' (ID operation) = Some (Errors operation)"
proof -
  consider (create) cr where "Create_operation st operation = (cr, st')"
    | (update) ur where "Update_operation st operation = (ur, st')"
    | (reject) "st' = st"
    using assms
    by (auto simp: storeOrUpdateOperation_def split: if_splits prod.splits option.splits)
  then show ?thesis
  proof cases
    case create
    from Create_operation_cases [OF create] show ?thesis
      by (cases cr) (simp_all add: stored_operation_def stored_Errors_def)
  next
    case update
    show ?thesis
    proof (cases ur)
      case None
      with update Update_operation_found [of st operation st'] show ?thesis
        by (simp add: stored_operation_def stored_Errors_def)
    next
      case (Some e)
      with update Update_operation_failed [of st operation e st'] show ?thesis
        by (simp add: stored_operation_def)
    qed
  next
    case reject
    then show ?thesis by simp
  qed
qed

lemma executeOperationPreconditions_stored:
  assumes "executeOperationPreconditions x s st operation = (r, st')"
  shows "stored_operation st' (ID operation) = stored_operation st (ID operation) \<or>
         stored_Errors st' (ID operation) = Some (Errors operation)"
proof -
  obtain g st1 where g: "Get_operation st (\<lambda>p. ResourceID p = ResourceID operation) = (g, st1)"
    by (cases "Get_operation st (\<lambda>p. ResourceID p = ResourceID operation)")
  from Get_operation_frame [OF g] have same: "stored_operation st1 i = stored_operation st i" for i
    by (simp add: stored_operation_def)
  consider (early) "st' = st" | (got) "st' = st1"
    | (store) lastOperation where "storeOrUpdateOperation x st1 operation lastOperation = (r, st')"
    using assms g
    by (auto simp: executeOperationPreconditions_def getResourceLastOperation_def
        split: if_splits prod.splits option.splits sum.splits)
  then show ?thesis
  proof cases
    case early
    then show ?thesis by simp
  next
    case got
    with same show ?thesis by simp
  next
    case store
    from storeOrUpdate_stored [OF store] same show ?thesis by simp
  qed
qed

lemma ScheduleAsync_stored:
  assumes "ScheduleAsyncStorageAction x s w operation action = (r, w')"
  shows "stored_operation (repository w') (ID operation) =
           stored_operation (repository w) (ID operation) \<or>
         stored_Errors (repository w') (ID operation) = Some (Errors operation)"
proof (cases "workers w < poolSize s")
  case False
  with assms show ?thesis by (simp add: ScheduleAsyncStorageAction_def)
next
  case True
  obtain pr st1 where p: "executeOperationPreconditions x s (repository w) operation = (pr, st1)"
    by (cases "executeOperationPreconditions x s (repository w) operation")
  with assms True have "repository w' = st1"
    by (auto simp: ScheduleAsyncStorageAction_def Let_def split: option.splits)
  with executeOperationPreconditions_stored [OF p] show ?thesis by simp
qed

lemma InTransaction_rolled_back:
  assumes "InTransaction st f = (a, r, st')" and "r \<noteq> Return None"
  shows "operations st' = operations st \<and> resources st' = resources st"
proof -
  obtain a1 r1 st1 where f: "f st = (a1, r1, st1)" by (cases "f st") auto
  show ?thesis
  proof (cases "r1 = Return None")
    case True
    with assms f show ?thesis
      by (auto simp: InTransaction_def take_fault_def rollback_def
          split: list.splits option.splits)
  next
    case False
    with assms f show ?thesis
      by (auto simp: InTransaction_def rollback_def split: result.splits option.splits)
  qed
qed

lemma handleActionResponseFailure_keeps_stored_Errors:
  assumes h: "handleActionResponseFailure x s w actionError opAfterJob = (r, w')"
    and ne: "Errors opAfterJob \<noteq> []"
    and before: "stored_Errors (repository w) (ID opAfterJob) = Some (Errors opAfterJob)"
  shows "stored_Errors (repository w') (ID opAfterJob) = Some (Errors opAfterJob)"
proof -
  obtain op' tr st where
    tx: "InTransaction (repository w) (failure_transaction x actionError opAfterJob) = (op', tr, st)"
    by (cases "InTransaction (repository w) (failure_transaction x actionError opAfterJob)") auto
  show ?thesis
  proof (cases "tr = Return None")
    case False
    from InTransaction_rolled_back [OF tx False] have "operations st = operations (repository w)"
      by simp
    moreover from h tx False have "repository w' = st"
      by (auto simp: handleActionResponseFailure_def split: result.splits option.splits)
    ultimately show ?thesis using before by (simp add: stored_Errors_def stored_operation_def)
  next
    case True
    with tx have txc: "InTransaction (repository w) (failure_transaction x actionError opAfterJob) =
        (op', Return None, st)" by simp
    from InTransaction_committed [OF txc] obtain st3 where
      ft: "failure_transaction x actionError opAfterJob (repository w) = (op', Return None, st3)"
      and eq: "operations st = operations st3"
      by blast
    from failure_transaction_committed [OF ft] obtain st1 where
      upd: "updateOperationState x st1 opAfterJob FAILED (Some actionError) = (op', None, st3)"
      by blast
    have id': "ID op' = ID opAfterJob" using updateOperationState_frame [OF upd] by simp
    have er': "Errors op' = Errors opAfterJob"
      by (rule updateOperationState_Errors_kept [OF upd ne])
    have after: "stored_Errors st (ID opAfterJob) = Some (Errors opAfterJob)"
      using updateOperationState_stored [OF upd] eq er'
      by (simp add: stored_Errors_def stored_operation_def)
    consider (plain) "repository w' = st"
      | (mitigate) adm where "ScheduleAsyncStorageAction x s
          (w\<lparr>repository := st\<lparr>clock := Add (clock st) (max 0 (reschedulingDelay s))\<rparr>\<rparr>)
          op' (deletionAction x op') = (adm, w')"
      using h txc
      by (auto simp: handleActionResponseFailure_def split: if_splits prod.splits option.splits)
    then show ?thesis
    proof cases
      case plain
      with after show ?thesis by simp
    next
      case mitigate
      from ScheduleAsync_stored [OF mitigate] id' er' after show ?thesis
        by (auto simp: stored_Errors_def stored_operation_def)
    qed
  qed
qed

lemma addOperationToContext_keeps_stored_Errors:
  assumes "addOperationToContext x st operation = (r, st')"
    and "Errors operation \<noteq> []"
    and "stored_Errors st (ID operation) = Some (Errors operation)"
  shows "stored_Errors st' (ID operation) = Some (Errors operation)"
proof (cases "opcontext_Set x operation")
  case None
  with assms show ?thesis by (simp add: addOperationToContext_def)
next
  case (Some ctxErr)
  obtain o' e' st1 where
    u: "updateOperationState x st operation FAILED
          (Some (Errorf ''failed to set operation in job context: %s'' [ArgError ctxErr])) =
        (o', e', st1)"
    by (cases "updateOperationState x st operation FAILED
          (Some (Errorf ''failed to set operation in job context: %s'' [ArgError ctxErr]))") auto
  with assms(1) Some have "st' = st1"
    by (auto simp: addOperationToContext_def Let_def split: option.splits)
  with updateOperationState_keeps_stored_Errors [OF u assms(2,3)] show ?thesis by simp
qed

lemma failure_write_keeps_Errors:
  assumes rf: "refetchOperation x (repository w) opBeforeJob = (Inr refetched, stR)"
    and ne: "Errors refetched \<noteq> []"
    and h: "handleActionResponse x s w actionObject (Some actionError) opBeforeJob = (r, w')"
  shows "stored_Errors (repository w) (ID opBeforeJob) = Some (Errors refetched) \<and>
         stored_Errors (repository w') (ID opBeforeJob) = Some (Errors refetched)"
proof -
  define opAfterJob where
    "opAfterJob = refetched\<lparr>TransitiveResources := TransitiveResources opBeforeJob\<rparr>"
  note R = refetchOperation_Inr [OF rf]
  have idr: "ID refetched = ID opBeforeJob"
    using R find_Some_holds [of "\<lambda>p. ID p = ID opBeforeJob" "operations (repository w)" refetched]
    by simp
  have ida: "ID opAfterJob = ID opBeforeJob" "Errors opAfterJob = Errors refetched"
    using idr by (simp_all add: opAfterJob_def)
  have before: "stored_Errors (repository w) (ID opBeforeJob) = Some (Errors refetched)"
    using R by (simp add: stored_Errors_def stored_operation_def)
  have beforeR: "stored_Errors stR (ID opAfterJob) = Some (Errors opAfterJob)"
    using R ida by (simp add: stored_Errors_def stored_operation_def)
  have nea: "Errors opAfterJob \<noteq> []" using ne ida by simp
  obtain ar st1 where a: "addOperationToContext x stR opAfterJob = (ar, st1)"
    by (cases "addOperationToContext x stR opAfterJob")
  note A = addOperationToContext_keeps_stored_Errors [OF a nea beforeR]
  have "stored_Errors (repository w') (ID opAfterJob) = Some (Errors opAfterJob)"
  proof (cases ar)
    case (Some err)
    with h rf a have "repository w' = st1"
      by (auto simp: handleActionResponse_def Let_def opAfterJob_def)
    with A show ?thesis by simp
  next
    case None
    obtain fr wf where
      f: "handleActionResponseFailure x s (w\<lparr>repository := st1\<rparr>) actionError opAfterJob = (fr, wf)"
      by (cases "handleActionResponseFailure x s (w\<lparr>repository := st1\<rparr>) actionError opAfterJob")
    with h rf a None have "w' = wf"
      by (auto simp: handleActionResponse_def Let_def opAfterJob_def split: result.splits)
    with handleActionResponseFailure_keeps_stored_Errors [OF f nea] A show ?thesis by simp
  qed
  with before ida show ?thesis by simp
qed

lemma panic_write_keeps_Errors:
  assumes b: "worker_body x s w operation action = (Panic p, operation', wP)"
    and rf: "refetchOperation x (repository wP) operation' = (Inr opr, stP)"
    and ne: "Errors opr \<noteq> []"
    and wk: "worker x s w operation action = (r, w')"
  shows "stored_Errors (repository wP) (ID operation') = Some (Errors opr) \<and>
         stored_Errors (repository w') (ID operation') = Some (Errors opr)"
proof -
  note R = refetchOperation_Inr [OF rf]
  have idr: "ID opr = ID operation'"
    using R find_Some_holds [of "\<lambda>p. ID p = ID operation'" "operations (repository wP)" opr]
    by simp
  have before: "stored_Errors (repository wP) (ID operation') = Some (Errors opr)"
    using R by (simp add: stored_Errors_def stored_operation_def)
  have beforeR: "stored_Errors stP (ID opr) = Some (Errors opr)"
    using R idr by (simp add: stored_Errors_def stored_operation_def)
  obtain o' e' st1 where
    u: "updateOperationState x stP opr FAILED (Some job_interrupted) = (o', e', st1)"
    by (cases "updateOperationState x stP opr FAILED (Some job_interrupted)") auto
  from wk b rf u have "repository w' = st1"
    by (auto simp: worker_def worker_deferred_def release_def)
  with updateOperationState_keeps_stored_Errors [OF u ne beforeR] idr before show ?thesis
    by simp
qed

lemma refetch_failure_write_keeps_Errors:
  assumes rf: "refetchOperation x st operation = (Inl err, st')"
    and ne: "Errors operation \<noteq> []"
  shows "stored_operation st' (ID operation) = stored_operation st (ID operation) \<or>
         stored_Errors st' (ID operation) = Some (Errors operation)"
proof -
  obtain g st1 where g: "Get_operation st (\<lambda>p. ID p = ID operation) = (g, st1)"
    by (cases "Get_operation st (\<lambda>p. ID p = ID operation)")
  from Get_operation_frame [OF g] have same: "stored_operation st1 i = stored_operation st i" for i
    by (simp add: stored_operation_def)
  from rf g obtain getErr where ge: "g = Inl getErr" by (cases g) (auto simp: refetchOperation_def)
  obtain o' e' st2 where
    u: "updateOperationState x st1 operation FAILED
          (Some (Errorf ''failed to re-fetch currently executing operation with id %s from db: %s''
                   [ArgString (ID operation), ArgError getErr])) = (o', e', st2)"
    by (cases "updateOperationState x st1 operation FAILED
          (Some (Errorf ''failed to re-fetch currently executing operation with id %s from db: %s''
                   [ArgString (ID operation), ArgError getErr]))") auto
  with rf g ge have "st' = st2"
    by (auto simp: refetchOperation_def Let_def split: option.splits)
  with updateOperationState_stored_or [OF u ne] same show ?thesis by simp
qed

text \<open>
  C6, as the code has it. The guard \<open>len(operation.Errors) == 0\<close> is on the copy of the
  operation the scheduler holds. For a failure write (the reconciler after an action
  error, including a failed context set and the re-admission for orphan mitigation) and
  for a panic write the copy is the re-fetched record: when its \<open>Errors\<close> is non-empty,
  the record stored afterwards has the same \<open>Errors\<close> as before, whatever the outcome
  of the writes. For a re-fetch-failure write the copy is the caller's: when its
  \<open>Errors\<close> is non-empty the stored record is either untouched or carries that
  \<open>Errors\<close>. So a new payload is written only when the held copy has none.
\<close>

theorem errors_append_once:
  "(refetchOperation x (repository w) opBeforeJob = (Inr refetched, stR) \<and>
    Errors refetched \<noteq> [] \<and>
    handleActionResponse x s w actionObject (Some actionError) opBeforeJob = (r, w') \<longrightarrow>
      stored_Errors (repository w) (ID opBeforeJob) = Some (Errors refetched) \<and>
      stored_Errors (repository w') (ID opBeforeJob) = Some (Errors refetched)) \<and>
   (worker_body x s w operation action = (Panic p, operation', wP) \<and>
    refetchOperation x (repository wP) operation' = (Inr opr, stP) \<and>
    Errors opr \<noteq> [] \<and>
    worker x s w operation action = (rP, wQ) \<longrightarrow>
      stored_Errors (repository wP) (ID operation') = Some (Errors opr) \<and>
      stored_Errors (repository wQ) (ID operation') = Some (Errors opr)) \<and>
   (refetchOperation x st held = (Inl err, st') \<and> Errors held \<noteq> [] \<longrightarrow>
      stored_operation st' (ID held) = stored_operation st (ID held) \<or>
      stored_Errors st' (ID held) = Some (Errors held))"
  using failure_write_keeps_Errors [of x w opBeforeJob refetched stR s actionObject actionError r w']
    panic_write_keeps_Errors [of x s w operation action p operation' wP opr stP rP wQ]
    refetch_failure_write_keeps_Errors [of x st held err st']
  by blast

theorem errors_append_once_witness:
  "handleActionResponse ext sched (world_idle\<lparr>repository := store_first\<rparr>) None
       (Some broker_failed) op_o1 =
     (Return (None, Some broker_failed),
      world_idle\<lparr>repository := store_first\<lparr>operations :=
        [op_first\<lparr>State := FAILED, UpdatedAt := 100\<rparr>]\<rparr>\<rparr>) \<and>
   worker ext sched (world_busy\<lparr>repository := store_first\<rparr>) op_o1 action_panics =
     (Return (),
      world_idle\<lparr>repository := store_first\<lparr>operations :=
        [op_first\<lparr>State := FAILED, UpdatedAt := 100\<rparr>]\<rparr>\<rparr>) \<and>
   refetchOperation ext (store_lost\<lparr>operations := [op_o1\<lparr>Errors := ''{second}''\<rparr>]\<rparr>) op_first =
     (Inl refetch_failed,
      store_first\<lparr>operations := [op_first\<lparr>State := FAILED, UpdatedAt := 100\<rparr>]\<rparr>) \<and>
   Errors op_first = ''{first}''"
  using errors_append_once [where x = ext and s = sched
      and w = "world_idle\<lparr>repository := store_first\<rparr>" and opBeforeJob = op_o1
      and refetched = op_first and stR = store_first and actionObject = None
      and actionError = broker_failed and r = "Return (None, Some broker_failed)"
      and w' = "world_idle\<lparr>repository := store_first\<lparr>operations :=
        [op_first\<lparr>State := FAILED, UpdatedAt := 100\<rparr>]\<rparr>\<rparr>"]
    errors_append_once [where x = ext and s = sched
      and w = "world_busy\<lparr>repository := store_first\<rparr>" and operation = op_o1
      and action = action_panics and p = "''index out of range''" and operation' = op_o1
      and wP = "world_busy\<lparr>repository := store_first\<rparr>" and opr = op_first
      and stP = store_first and rP = "Return ()"
      and wQ = "world_idle\<lparr>repository := store_first\<lparr>operations :=
        [op_first\<lparr>State := FAILED, UpdatedAt := 100\<rparr>]\<rparr>\<rparr>"]
    errors_append_once [where x = ext
      and st = "store_lost\<lparr>operations := [op_o1\<lparr>Errors := ''{second}''\<rparr>]\<rparr>"
      and held = op_first and err = refetch_failed
      and st' = "store_first\<lparr>operations := [op_first\<lparr>State := FAILED, UpdatedAt := 100\<rparr>]\<rparr>"]
  by (simp add: eval_defs Let_def)

text \<open>
  C6 as stated also covers the stored record on a re-fetch-failure write. There the
  caller's copy, not the stored record, is tested: a stored payload \<open>{first}\<close> is
  replaced when the re-fetch fails and the caller's copy has no payload. The same
  happens from the synchronous entry point when the action records an error on the
  stored operation and the re-fetch then fails.
\<close>

theorem refetch_failure_overwrites_counterexample:
  "stored_Errors (store_lost\<lparr>operations := [op_first]\<rparr>) ''o1'' = Some ''{first}'' \<and>
   handleActionResponse ext sched (world_idle\<lparr>repository := store_lost\<lparr>operations := [op_first]\<rparr>\<rparr>)
       None (Some broker_failed) op_o1 =
     (Return (None, Some refetch_failed),
      world_idle\<lparr>repository := store_o1\<lparr>operations :=
        [op_o1\<lparr>State := FAILED, Errors := ''{error}'', UpdatedAt := 100\<rparr>]\<rparr>\<rparr>) \<and>
   action_records op_o1 (store_o1\<lparr>faults := [None, Some ''connection lost'']\<rparr>) =
     (Return (None, Some broker_failed), op_o1,
      store_o1\<lparr>operations := [op_first\<lparr>UpdatedAt := 100\<rparr>],
               faults := [Some ''connection lost'']\<rparr>) \<and>
   ScheduleSyncStorageAction ext sched (world_idle\<lparr>repository := store_recording\<rparr>) op_o1
       action_records =
     (Return (None, Some refetch_failed),
      world_idle\<lparr>repository := store_o1\<lparr>operations :=
        [op_o1\<lparr>State := FAILED, Errors := ''{error}'', UpdatedAt := 100\<rparr>]\<rparr>\<rparr>)"
  by (simp add: eval_defs Let_def)

end
